theory Spec2Isabelle
  imports Main "HOL-Library.Sublist"
begin

section \<open>Errors\<close>

text \<open>
  The code builds its errors with github.com/pkg/errors: \<open>errors.New\<close> and
  \<open>errors.Errorf\<close> make a fresh error from a message, \<open>errors.Wrap\<close> and
  \<open>errors.Wrapf\<close> put a message in front of a cause. The message of a wrapped error
  is the wrapping message, a colon and a space, and the message of the cause. Errors
  of the libraries that are called (the decoder, the dependency enumerators, the
  delegated builder) are values of the same type.
\<close>

datatype error = fundamental string | withMessage error string

fun Error :: "error \<Rightarrow> string" where
  "Error (fundamental msg) = msg"
| "Error (withMessage cause msg) = msg @ '': '' @ Error cause"

definition errors_New :: "string \<Rightarrow> error" where
  "errors_New msg = fundamental msg"

definition errors_Wrap :: "error \<Rightarrow> string \<Rightarrow> error" where
  "errors_Wrap err msg = withMessage err msg"

text \<open>
  A call that may panic (a nil pointer is dereferenced) either panics or returns.
\<close>

datatype 'a outcome = Panic | Return 'a

section \<open>The data model\<close>

text \<open>
  The structs of package \<open>latest\<close> and \<open>config\<close> are declared outside the two source
  files; each record below has the fields that the source reads or writes. A Go pointer
  that may be nil is an option, a nil slice is the empty list, a byte slice is a string.
  \<open>ArtifactType\<close> is embedded in \<open>Artifact\<close>, so \<open>artifact.BazelArtifact\<close> is
  \<open>artifact.ArtifactType.BazelArtifact\<close>.
\<close>

record BazelArtifact =
  BuildTarget :: string

text \<open>
  Modelled from the spec: the declaration of \<open>latest.DockerArtifact\<close> is missing. The
  "Docker build config" is only handed to the Docker dependency enumerator; the path of
  the Dockerfile stands for what it holds.
\<close>

record DockerArtifact =
  DockerfilePath :: string

record ArtifactType =
  DockerArtifact :: "DockerArtifact option"
  BazelArtifact :: "BazelArtifact option"

text \<open>
  Modelled from the spec: the declaration of \<open>latest.BuilderPlugin\<close> and of the
  field \<open>Artifact.BuilderPlugin\<close> is missing. The spec calls the payload "present only
  before materialization", so the field is a pointer that may be nil; reading
  \<open>artifact.BuilderPlugin.Contents\<close> through a nil pointer panics.
\<close>

record BuilderPlugin =
  Contents :: string

record Artifact =
  ImageName :: string
  Workspace :: string
  ArtifactType :: ArtifactType
  BuilderPlugin :: "BuilderPlugin option"

text \<open>
  The properties of an execution environment are a \<open>map[string]interface{}\<close>: an
  association list of loosely typed values, or nil. \<open>PUnencodable\<close> stands for a Go
  value that has no JSON encoding.
\<close>

datatype pvalue = PNull | PBool bool | PNumber int | PString string
  | PList "pvalue list" | PMap "(string \<times> pvalue) list" | PUnencodable

record ExecutionEnvironment =
  Name :: string
  Properties :: "(string \<times> pvalue) list option"

record SkaffoldOptions =
  SkipTests :: bool

text \<open>
  Modelled from the spec: the declaration of \<open>latest.LocalBuild\<close> is missing. The spec
  names "push behavior" among the local build options; the option is a pointer to a
  boolean, nil when it is absent. The other options are left out: nothing here reads
  them.
\<close>

record LocalBuild =
  Push :: "bool option"

definition LocalBuild_zero :: LocalBuild where
  "LocalBuild_zero = \<lparr>Push = None\<rparr>"

record Builder =
  opts :: "SkaffoldOptions option"
  env :: "ExecutionEnvironment option"

text \<open>
  Modelled from the spec: \<open>constants.Local\<close> is missing; the spec gives "local" as
  the name of the supported environment.
\<close>

definition constants_Local :: string where
  "constants_Local = ''local''"

type_synonym ref = nat
type_synonym tags = "(string \<times> string) list"
type_synonym build_Artifact = "string \<times> string"

section \<open>The store and the log of outside calls\<close>

text \<open>
  Artifacts are passed by pointer and \<open>setArtifact\<close> writes through the pointer, so the
  artifacts live in a store from addresses to values, and a batch is a list of
  addresses (the same address may occur twice). An address with no artifact in the
  store stands for the nil pointer. The receiver of the methods is the field \<open>self\<close>.
  Every call to a collaborator that may fail or act on the outside is written to the
  log \<open>calls\<close>, in order, with its arguments.
\<close>

datatype call =
    Call_UnmarshalStrict string
  | Call_bazel_GetDependencies string BazelArtifact
  | Call_docker_GetDependencies string "DockerArtifact option"
  | Call_CloneThroughJSON "(string \<times> pvalue) list option"
  | Call_CurrentContext
  | Call_NewBuilder LocalBuild string bool
  | Call_Build "ref list"

record world =
  heap :: "ref \<rightharpoonup> Artifact"
  self :: Builder
  calls :: "call list"

definition log :: "call \<Rightarrow> world \<Rightarrow> world" where
  "log c w = w\<lparr>calls := calls w @ [c]\<rparr>"

section \<open>The collaborators\<close>

text \<open>
  The collaborators that the spec leaves outside (the two dependency enumerators, the
  provider of the cluster context, the factory of the local builder and the local
  builder's \<open>Build\<close>), the reader of the concrete syntax of a payload and the
  normalizer of paths \<open>util.AbsolutePaths\<close>, which is not among the sources, are
  parameters.
  A Go function that returns a value and an error returns a pair here. The context
  token and the output sink are only handed on by the code and are left out. The
  delegated builder receives the pointers and may write to the artifacts.
\<close>

datatype yaml = YNull | YScalar string | YSeq "yaml list" | YMap "(string \<times> yaml) list"

record 'b externals =
  yaml_parse :: "string \<Rightarrow> error + yaml"
  bazel_GetDependencies :: "string \<Rightarrow> BazelArtifact \<Rightarrow> string list \<times> error option"
  docker_GetDependencies :: "string \<Rightarrow> DockerArtifact option \<Rightarrow> string list \<times> error option"
  kubectx_CurrentContext :: "string \<times> error option"
  local_NewBuilder :: "LocalBuild \<Rightarrow> string \<Rightarrow> bool \<Rightarrow> 'b \<times> error option"
  local_Build :: "'b \<Rightarrow> tags \<Rightarrow> ref list \<Rightarrow> (ref \<rightharpoonup> Artifact)
    \<Rightarrow> (build_Artifact list \<times> error option) \<times> (ref \<rightharpoonup> Artifact)"
  util_AbsolutePaths :: "string \<Rightarrow> string list \<Rightarrow> string list"

subsection \<open>The strict decoder\<close>

text \<open>
  \<open>yaml.UnmarshalStrict\<close> of gopkg.in/yaml.v2 reads the bytes into a document and
  decodes the document into the \<open>*latest.BazelArtifact\<close> it is given. By its
  documentation it is like \<open>Unmarshal\<close>, except that a field of the data with no
  corresponding struct member, or a duplicate mapping key, results in an error. An
  empty or null document leaves the pointer nil and is no error. The decoder collects
  its complaints and goes on, so after an error the value may be partly filled. The
  complaints are given without the line numbers that the library puts in front.
\<close>

text \<open>
  Modelled from the spec: the declaration of \<open>latest.BazelArtifact\<close> is missing. The
  source reads its string field \<open>BuildTarget\<close>; the spec's scenario writes the field as
  \<open>buildTarget: //:app\<close>, which gives the key of the field in a payload. No other
  field is known.
\<close>

definition BuildTarget_key :: string where
  "BuildTarget_key = ''buildTarget''"

definition BazelArtifact_zero :: BazelArtifact where
  "BazelArtifact_zero = \<lparr>BuildTarget = ''''\<rparr>"

fun mappingStruct ::
  "(string \<times> yaml) list \<Rightarrow> string list \<Rightarrow> BazelArtifact \<Rightarrow> BazelArtifact \<times> string list" where
  "mappingStruct [] seen a = (a, [])"
| "mappingStruct ((k, v) # kvs) seen a =
     (if k \<noteq> BuildTarget_key then
        (case mappingStruct kvs seen a of (a', errs) \<Rightarrow>
           (a', (''field '' @ k @ '' not found in type latest.BazelArtifact'') # errs))
      else if k \<in> set seen then
        (case mappingStruct kvs seen a of (a', errs) \<Rightarrow>
           (a', (''field '' @ k @ '' already set in type latest.BazelArtifact'') # errs))
      else
        (case v of
           YScalar s \<Rightarrow> mappingStruct kvs (k # seen) (a\<lparr>BuildTarget := s\<rparr>)
         | YNull \<Rightarrow> mappingStruct kvs (k # seen) (a\<lparr>BuildTarget := ''''\<rparr>)
         | YSeq _ \<Rightarrow>
             (case mappingStruct kvs (k # seen) a of (a', errs) \<Rightarrow>
                (a', ''cannot unmarshal !!seq into string'' # errs))
         | YMap _ \<Rightarrow>
             (case mappingStruct kvs (k # seen) a of (a', errs) \<Rightarrow>
                (a', ''cannot unmarshal !!map into string'' # errs))))"

definition yaml_TypeError :: "string list \<Rightarrow> error" where
  "yaml_TypeError errs =
     fundamental (''yaml: unmarshal errors:'' @ concat (map (\<lambda>e. CHR 0x0A # ''  '' @ e) errs))"

definition decode_strict :: "yaml \<Rightarrow> BazelArtifact option \<times> error option" where
  "decode_strict doc =
     (case doc of
        YNull \<Rightarrow> (None, None)
      | YMap kvs \<Rightarrow>
          (case mappingStruct kvs [] BazelArtifact_zero of (a, errs) \<Rightarrow>
             (Some a, if errs = [] then None else Some (yaml_TypeError errs)))
      | YScalar s \<Rightarrow>
          (Some BazelArtifact_zero,
           Some (yaml_TypeError [''cannot unmarshal !!str into latest.BazelArtifact'']))
      | YSeq _ \<Rightarrow>
          (Some BazelArtifact_zero,
           Some (yaml_TypeError [''cannot unmarshal !!seq into latest.BazelArtifact''])))"

definition yaml_UnmarshalStrict ::
  "'b externals \<Rightarrow> string \<Rightarrow> BazelArtifact option \<times> error option" where
  "yaml_UnmarshalStrict ext contents =
     (case yaml_parse ext contents of
        Inl e \<Rightarrow> (None, Some e)
      | Inr doc \<Rightarrow> decode_strict doc)"

section \<open>Materialization: setArtifact\<close>

definition setArtifact :: "'b externals \<Rightarrow> ref \<Rightarrow> world \<Rightarrow> error option outcome \<times> world" where
  "setArtifact ext r w =
     (case heap w r of
        None \<Rightarrow> (Panic, w)
      | Some artifact \<Rightarrow>
          (case BazelArtifact (ArtifactType artifact) of
             Some _ \<Rightarrow> (Return None, w)
           | None \<Rightarrow>
               (case BuilderPlugin artifact of
                  None \<Rightarrow> (Panic, w)
                | Some plugin \<Rightarrow>
                    (case yaml_UnmarshalStrict ext (Contents plugin) of (a, err) \<Rightarrow>
                       (let w1 = log (Call_UnmarshalStrict (Contents plugin)) w in
                        (case err of
                           Some e \<Rightarrow>
                             (Return (Some (errors_Wrap e ''unmarshalling bazel artifact'')), w1)
                         | None \<Rightarrow>
                             (case a of
                                None \<Rightarrow> (Return (Some (errors_New ''artifact is nil'')), w1)
                              | Some a \<Rightarrow>
                                  if BuildTarget a = '''' then
                                    (Return (Some (errors_New
                                       (ImageName artifact @ '' must have an associated build target''))), w1)
                                  else
                                    (Return None,
                                     w1\<lparr>heap := (heap w1)(r \<mapsto>
                                        artifact\<lparr>ArtifactType :=
                                          (ArtifactType artifact)\<lparr>BazelArtifact := Some a\<rparr>\<rparr>)\<rparr>))))))))"

section \<open>Paths\<close>

text \<open>
  Go's \<open>path/filepath\<close> on a system whose separator is the slash: a path is absolute
  when it starts with the separator; \<open>Join\<close> ignores empty elements, puts a separator
  between the others and cleans the result; \<open>Clean\<close> drops empty and \<open>.\<close> elements,
  cancels an inner \<open>..\<close> against the element before it, drops \<open>..\<close> at the start of
  a rooted path, and returns \<open>.\<close> for an empty result. \<open>names\<close> are the elements that
  are left after cleaning. \<open>Abs\<close> is the absolute form of a path: a path that is not
  absolute is joined onto the working directory, which is given here.
\<close>

definition IsAbs :: "string \<Rightarrow> bool" where
  "IsAbs path = (case path of [] \<Rightarrow> False | c # _ \<Rightarrow> c = CHR ''/'')"

fun elements :: "string \<Rightarrow> string \<Rightarrow> string list" where
  "elements cur [] = [cur]"
| "elements cur (c # cs) =
     (if c = CHR ''/'' then cur # elements [] cs else elements (cur @ [c]) cs)"

fun clean_step :: "bool \<Rightarrow> string list \<Rightarrow> string \<Rightarrow> string list" where
  "clean_step rooted stack e =
     (if e = [] \<or> e = ''.'' then stack
      else if e = ''..'' then
        (case stack of
           [] \<Rightarrow> if rooted then [] else [''..'']
         | t # ts \<Rightarrow> if t = ''..'' then ''..'' # stack else ts)
      else e # stack)"

fun join_sep :: "string list \<Rightarrow> string" where
  "join_sep [] = []"
| "join_sep [e] = e"
| "join_sep (e # f # es) = e @ ''/'' @ join_sep (f # es)"

definition names :: "string \<Rightarrow> string list" where
  "names path = rev (foldl (clean_step (IsAbs path)) [] (elements [] path))"

definition Clean :: "string \<Rightarrow> string" where
  "Clean path =
     (let body = join_sep (names path)
      in if IsAbs path then ''/'' @ body else if body = [] then ''.'' else body)"

definition Join :: "string \<Rightarrow> string \<Rightarrow> string" where
  "Join a b =
     (if a \<noteq> [] then Clean (a @ ''/'' @ b) else if b \<noteq> [] then Clean b else [])"

definition Abs :: "string \<Rightarrow> string \<Rightarrow> string" where
  "Abs wd path = (if IsAbs path then Clean path else Join wd path)"

text \<open>
  A path is under a directory, or equal to it, when the names of the directory are the
  first names of the path; \<open>..\<close> in the path has been cancelled before the names are
  compared, so a path that climbs out of the directory is not under it.
\<close>

definition is_under :: "string \<Rightarrow> string \<Rightarrow> bool" where
  "is_under dir path = prefix (names dir) (names path)"

text \<open>
  Modelled from the spec: \<open>util.AbsolutePaths\<close> is missing; it is the collaborator
  \<open>util_AbsolutePaths\<close>, and \<open>normalizes\<close> is what the spec says of it. The spec:
  the resolver "normalizes every returned path to an absolute path anchored at
  \<open>artifact.Workspace\<close>, regardless of what the enumerator returned, so all callers
  receive a uniform representation"; the enumerator "returns paths relative to the
  workspace (or absolute, backend-dependent)"; and "for any enumerator output mixing
  relative and absolute paths, \<open>Dependencies\<close> returns only absolute paths, each
  resolvable to a file under or equal to \<open>artifact.Workspace\<close> when the enumerator
  returned a relative path". So, for every workspace and every list of paths, the
  result has one path for each path given, in order; each is absolute; the one for a
  relative path is under the workspace, taken in its absolute form for the working
  directory \<open>wd\<close>; and a path that is absolute already has the representation that is
  asked for and is kept.
\<close>

definition normalized :: "string \<Rightarrow> string \<Rightarrow> string \<Rightarrow> string \<Rightarrow> bool" where
  "normalized wd workspace path result =
     (IsAbs result \<and>
      (if IsAbs path then result = path else is_under (Abs wd workspace) result))"

definition normalizes :: "string \<Rightarrow> (string \<Rightarrow> string list \<Rightarrow> string list) \<Rightarrow> bool" where
  "normalizes wd f =
     (\<forall>workspace paths. list_all2 (normalized wd workspace) paths (f workspace paths))"

section \<open>Adapting the environment properties\<close>

fun encodable :: "pvalue \<Rightarrow> bool" where
  "encodable PUnencodable = False"
| "encodable (PList vs) = (\<forall>v \<in> set vs. encodable v)"
| "encodable (PMap kvs) = (\<forall>kv \<in> set kvs. encodable (snd kv))"
| "encodable _ = True"

text \<open>
  Modelled from the spec: \<open>util.CloneThroughJSON\<close> is missing. The spec: "a structural
  re-encode/decode of \<open>env.Properties\<close> into the target backend's environment-config
  schema (field-name-based mapping; unknown source fields are ignored, missing target
  fields take zero values)"; it fails "only if the underlying structural conversion
  itself fails"; "a nil/empty properties bag is valid and yields a zero-value config".
  The first component is what the call leaves in the \<open>*latest.LocalBuild\<close> that it is
  given: a nil bag encodes as null, and decoding null leaves the pointer nil. The
  conversion fails when a value of the bag cannot be encoded, or when the value of a
  field of the schema has the wrong type.
\<close>

definition util_CloneThroughJSON ::
  "(string \<times> pvalue) list option \<Rightarrow> LocalBuild option \<times> error option" where
  "util_CloneThroughJSON properties =
     (case properties of
        None \<Rightarrow> (None, None)
      | Some kvs \<Rightarrow>
          if \<not> (\<forall>kv \<in> set kvs. encodable (snd kv)) then
            (None, Some (errors_Wrap (fundamental ''json: unsupported type'') ''marshalling old''))
          else
            (case map_of kvs ''push'' of
               None \<Rightarrow> (Some LocalBuild_zero, None)
             | Some PNull \<Rightarrow> (Some LocalBuild_zero, None)
             | Some (PBool b) \<Rightarrow> (Some \<lparr>Push = Some b\<rparr>, None)
             | Some _ \<Rightarrow>
                 (Some LocalBuild_zero,
                  Some (errors_Wrap
                    (fundamental ''json: cannot unmarshal into Go struct field LocalBuild.push of type bool'')
                    ''unmarshalling new''))))"

section \<open>The Bazel builder\<close>

definition NewBuilder :: Builder where
  "NewBuilder = \<lparr>opts = None, env = None\<rparr>"

definition Init :: "SkaffoldOptions option \<Rightarrow> ExecutionEnvironment option \<Rightarrow> world \<Rightarrow> world" where
  "Init opts' env' w = w\<lparr>self := (self w)\<lparr>opts := opts', env := env'\<rparr>\<rparr>"

definition DependenciesForArtifact ::
  "'b externals \<Rightarrow> ref \<Rightarrow> world \<Rightarrow> (string list \<times> error option) outcome \<times> world" where
  "DependenciesForArtifact ext r w =
     (case setArtifact ext r w of
        (Panic, w1) \<Rightarrow> (Panic, w1)
      | (Return (Some err), w1) \<Rightarrow> (Return ([], Some err), w1)
      | (Return None, w1) \<Rightarrow>
          (case heap w1 r of
             None \<Rightarrow> (Panic, w1)
           | Some artifact \<Rightarrow>
               (case BazelArtifact (ArtifactType artifact) of
                  None \<Rightarrow> (Return ([], Some (errors_New ''bazel artifact is nil'')), w1)
                | Some bazelArtifact \<Rightarrow>
                    (case bazel_GetDependencies ext (Workspace artifact) bazelArtifact of
                       (paths, err) \<Rightarrow>
                         (let w2 = log (Call_bazel_GetDependencies (Workspace artifact) bazelArtifact) w1
                          in (case err of
                                Some e \<Rightarrow>
                                  (Return ([], Some (errors_Wrap e ''getting bazel dependencies'')), w2)
                              | None \<Rightarrow>
                                  (Return (util_AbsolutePaths ext (Workspace artifact) paths, None), w2)))))))"

text \<open>The loop of \<open>local\<close> over the batch (lines 103 to 107).\<close>

fun setArtifacts :: "'b externals \<Rightarrow> ref list \<Rightarrow> world \<Rightarrow> error option outcome \<times> world" where
  "setArtifacts ext [] w = (Return None, w)"
| "setArtifacts ext (a # artifacts) w =
     (case setArtifact ext a w of
        (Panic, w1) \<Rightarrow> (Panic, w1)
      | (Return (Some err), w1) \<Rightarrow>
          (case heap w1 a of
             None \<Rightarrow> (Panic, w1)
           | Some artifact \<Rightarrow>
               (Return (Some (errors_Wrap err (''setting artifact '' @ ImageName artifact))), w1))
      | (Return None, w1) \<Rightarrow> setArtifacts ext artifacts w1)"

definition local ::
  "'b externals \<Rightarrow> tags \<Rightarrow> ref list \<Rightarrow> world
    \<Rightarrow> (build_Artifact list \<times> error option) outcome \<times> world" where
  "local ext tags artifacts w =
     (case env (self w) of
        None \<Rightarrow> (Panic, w)
      | Some e \<Rightarrow>
          (case util_CloneThroughJSON (Properties e) of (l, err) \<Rightarrow>
             (let w1 = log (Call_CloneThroughJSON (Properties e)) w in
              (case err of
                 Some er \<Rightarrow>
                   (Return ([], Some (errors_Wrap er ''converting execution env to localBuild struct'')), w1)
               | None \<Rightarrow>
                   (let l = (case l of None \<Rightarrow> LocalBuild_zero | Some l' \<Rightarrow> l') in
                    (case kubectx_CurrentContext ext of (kubeContext, err) \<Rightarrow>
                       (let w2 = log Call_CurrentContext w1 in
                        (case err of
                           Some er \<Rightarrow>
                             (Return ([], Some (errors_Wrap er ''getting current cluster context'')), w2)
                         | None \<Rightarrow>
                             (case opts (self w2) of
                                None \<Rightarrow> (Panic, w2)
                              | Some options \<Rightarrow>
                                  (case local_NewBuilder ext l kubeContext (SkipTests options) of
                                     (builder, err) \<Rightarrow>
                                       (let w3 = log (Call_NewBuilder l kubeContext (SkipTests options)) w2 in
                                        (case err of
                                           Some er \<Rightarrow>
                                             (Return ([], Some (errors_Wrap er ''getting local builder'')), w3)
                                         | None \<Rightarrow>
                                             (case setArtifacts ext artifacts w3 of
                                                (Panic, w4) \<Rightarrow> (Panic, w4)
                                              | (Return (Some er), w4) \<Rightarrow> (Return ([], Some er), w4)
                                              | (Return None, w4) \<Rightarrow>
                                                  (case local_Build ext builder tags artifacts (heap w4) of
                                                     (res, heap') \<Rightarrow>
                                                       (Return res,
                                                        (log (Call_Build artifacts) w4)\<lparr>heap := heap'\<rparr>)))))))))))))))"

definition Build ::
  "'b externals \<Rightarrow> tags \<Rightarrow> ref list \<Rightarrow> world
    \<Rightarrow> (build_Artifact list \<times> error option) outcome \<times> world" where
  "Build ext tags artifacts w =
     (case env (self w) of
        None \<Rightarrow> (Panic, w)
      | Some e \<Rightarrow>
          if Name e = constants_Local then local ext tags artifacts w
          else
            (Return ([], Some (errors_New
               (Name e @ '' is not a supported environment for builder bazel''))), w))"

section \<open>The Google Cloud Build builder\<close>

definition gcb_DependenciesForArtifact ::
  "'b externals \<Rightarrow> ref \<Rightarrow> world \<Rightarrow> (string list \<times> error option) outcome \<times> world" where
  "gcb_DependenciesForArtifact ext r w =
     (case heap w r of
        None \<Rightarrow> (Panic, w)
      | Some a \<Rightarrow>
          (case docker_GetDependencies ext (Workspace a) (DockerArtifact (ArtifactType a)) of
             (paths, err) \<Rightarrow>
               (let w1 = log (Call_docker_GetDependencies (Workspace a) (DockerArtifact (ArtifactType a))) w
                in (case err of
                      Some e \<Rightarrow>
                        (Return ([], Some (errors_Wrap e (''getting dependencies for '' @ ImageName a))), w1)
                    | None \<Rightarrow> (Return (util_AbsolutePaths ext (Workspace a) paths, None), w1)))))"

section \<open>Concrete inputs\<close>

text \<open>
  The inputs at which the theorems below are instantiated: the artifact of the spec's
  scenario and variants of it, a reader that knows a handful of payloads, and
  collaborators that succeed or fail in a fixed way.
\<close>

definition unset :: ArtifactType where
  "unset = \<lparr>DockerArtifact = None, BazelArtifact = None\<rparr>"

definition payload_app :: string where
  "payload_app = ''buildTarget: //:app''"

definition payload_empty_target :: string where
  "payload_empty_target = ''buildTarget: '' @ [CHR 0x22, CHR 0x22]"

definition payload_unknown_field :: string where
  "payload_unknown_field = ''{buildTarget: //:app, colour: red}''"

definition demo_parse :: "string \<Rightarrow> error + yaml" where
  "demo_parse s =
     (if s = payload_app then Inr (YMap [(''buildTarget'', YScalar ''//:app'')])
      else if s = payload_empty_target then Inr (YMap [(''buildTarget'', YScalar [])])
      else if s = payload_unknown_field then
        Inr (YMap [(''buildTarget'', YScalar ''//:app''), (''colour'', YScalar ''red'')])
      else if s = [] then Inr YNull
      else Inl (fundamental ''yaml: did not find expected key''))"

definition app :: Artifact where
  "app = \<lparr>ImageName = ''app'', Workspace = ''/src'', ArtifactType = unset,
     BuilderPlugin = Some \<lparr>Contents = payload_app\<rparr>\<rparr>"

definition app_relative :: Artifact where
  "app_relative = app\<lparr>Workspace := ''.''\<rparr>"

definition app_empty_target :: Artifact where
  "app_empty_target = app\<lparr>BuilderPlugin := Some \<lparr>Contents = payload_empty_target\<rparr>\<rparr>"

definition app_unknown_field :: Artifact where
  "app_unknown_field = app\<lparr>BuilderPlugin := Some \<lparr>Contents = payload_unknown_field\<rparr>\<rparr>"

definition app_materialized :: Artifact where
  "app_materialized =
     app\<lparr>ArtifactType := unset\<lparr>BazelArtifact := Some \<lparr>BuildTarget = ''//:app''\<rparr>\<rparr>\<rparr>"

definition app_prepopulated_empty :: Artifact where
  "app_prepopulated_empty =
     \<lparr>ImageName = ''app'', Workspace = ''/src'',
      ArtifactType = unset\<lparr>BazelArtifact := Some \<lparr>BuildTarget = []\<rparr>\<rparr>,
      BuilderPlugin = None\<rparr>"

definition web :: Artifact where
  "web = \<lparr>ImageName = ''web'', Workspace = ''/src/web'', ArtifactType = unset,
     BuilderPlugin = Some \<lparr>Contents = payload_app\<rparr>\<rparr>"

text \<open>
  A normalizer for the working directory \<open>/home/dev\<close>: an absolute path is kept, a
  relative path is joined onto the absolute form of the workspace, and a path that
  would leave the workspace that way is replaced by the workspace.
\<close>

definition demo_wd :: string where
  "demo_wd = ''/home/dev''"

definition demo_AbsolutePaths :: "string \<Rightarrow> string list \<Rightarrow> string list" where
  "demo_AbsolutePaths workspace paths =
     map (\<lambda>path.
       if IsAbs path then path
       else if is_under (Abs demo_wd workspace) (Join (Abs demo_wd workspace) path)
         then Join (Abs demo_wd workspace) path
         else Abs demo_wd workspace) paths"

definition demo_ext :: "unit externals" where
  "demo_ext =
     \<lparr>yaml_parse = demo_parse,
      bazel_GetDependencies = (\<lambda>workspace a. ([''main.go'', ''BUILD'', ''/etc/ca.pem''], None)),
      docker_GetDependencies = (\<lambda>workspace a. ([''Dockerfile'', ''/etc/ca.pem''], None)),
      kubectx_CurrentContext = (''minikube'', None),
      local_NewBuilder = (\<lambda>l kubeContext skipTests. ((), None)),
      local_Build = (\<lambda>builder tags artifacts h. ((tags, None), h)),
      util_AbsolutePaths = demo_AbsolutePaths\<rparr>"

definition failing_ext :: "unit externals" where
  "failing_ext =
     demo_ext\<lparr>bazel_GetDependencies :=
         (\<lambda>workspace a. ([''main.go''], Some (fundamental ''query failed''))),
       docker_GetDependencies :=
         (\<lambda>workspace a. ([''Dockerfile''], Some (fundamental ''no such file'')))\<rparr>"

definition demo_world :: "Artifact list \<Rightarrow> ExecutionEnvironment \<Rightarrow> world" where
  "demo_world artifacts e =
     \<lparr>heap = (\<lambda>r. if r < length artifacts then Some (artifacts ! r) else None),
      self = \<lparr>opts = Some \<lparr>SkipTests = False\<rparr>, env = Some e\<rparr>,
      calls = []\<rparr>"

definition env_local :: ExecutionEnvironment where
  "env_local = \<lparr>Name = ''local'', Properties = None\<rparr>"

definition env_remote :: ExecutionEnvironment where
  "env_remote = \<lparr>Name = ''remote-unknown'', Properties = None\<rparr>"

definition api_empty_target :: Artifact where
  "api_empty_target = \<lparr>ImageName = ''api'', Workspace = ''/src/api'', ArtifactType = unset,
     BuilderPlugin = Some \<lparr>Contents = payload_empty_target\<rparr>\<rparr>"

definition env_bad_push :: ExecutionEnvironment where
  "env_bad_push = \<lparr>Name = ''local'', Properties = Some [(''push'', PString ''yes'')]\<rparr>"

text \<open>An artifact is materialized when it holds a Bazel configuration.\<close>

definition materialized :: "world \<Rightarrow> ref \<Rightarrow> bool" where
  "materialized w r =
     (case heap w r of
        None \<Rightarrow> False
      | Some artifact \<Rightarrow> BazelArtifact (ArtifactType artifact) \<noteq> None)"

text \<open>The calls of the decoder, among the outside calls.\<close>

fun is_UnmarshalStrict :: "call \<Rightarrow> bool" where
  "is_UnmarshalStrict (Call_UnmarshalStrict contents) = True"
| "is_UnmarshalStrict _ = False"

section \<open>Facts about setArtifact\<close>

lemma setArtifact_materialized:
  "heap w r = Some artifact \<Longrightarrow> BazelArtifact (ArtifactType artifact) = Some cfg
   \<Longrightarrow> setArtifact ext r w = (Return None, w)"
  by (simp add: setArtifact_def)

lemma setArtifact_fresh:
  assumes "heap w r = Some artifact" and "BazelArtifact (ArtifactType artifact) = None"
    and "BuilderPlugin artifact = Some plugin"
    and "yaml_UnmarshalStrict ext (Contents plugin) = (a, err)"
  shows "setArtifact ext r w =
     (case err of
        Some e \<Rightarrow> (Return (Some (errors_Wrap e ''unmarshalling bazel artifact'')),
                   log (Call_UnmarshalStrict (Contents plugin)) w)
      | None \<Rightarrow>
         (case a of
            None \<Rightarrow> (Return (Some (errors_New ''artifact is nil'')),
                      log (Call_UnmarshalStrict (Contents plugin)) w)
          | Some cfg \<Rightarrow>
              if BuildTarget cfg = [] then
                (Return (Some (errors_New (ImageName artifact @ '' must have an associated build target''))),
                 log (Call_UnmarshalStrict (Contents plugin)) w)
              else
                (Return None,
                 (log (Call_UnmarshalStrict (Contents plugin)) w)\<lparr>heap := (heap w)(r \<mapsto>
                    artifact\<lparr>ArtifactType := (ArtifactType artifact)\<lparr>BazelArtifact := Some cfg\<rparr>\<rparr>)\<rparr>)))"
  using assms by (simp add: setArtifact_def Let_def log_def split: option.splits)

lemma setArtifact_success:
  assumes "setArtifact ext r w = (Return None, w1)"
  shows "\<exists>artifact cfg. heap w1 r = Some artifact \<and> BazelArtifact (ArtifactType artifact) = Some cfg"
  using assms
  by (auto simp: setArtifact_def log_def Let_def split: option.splits prod.splits if_splits)

lemma setArtifact_error:
  assumes "setArtifact ext r w = (Return (Some e), w1)"
  shows "\<exists>artifact plugin. heap w r = Some artifact \<and> BazelArtifact (ArtifactType artifact) = None
     \<and> BuilderPlugin artifact = Some plugin \<and> w1 = log (Call_UnmarshalStrict (Contents plugin)) w"
  using assms
  by (auto simp: setArtifact_def log_def Let_def split: option.splits prod.splits if_splits)

lemma setArtifact_panic:
  assumes "setArtifact ext r w = (Panic, w1)"
  shows "w1 = w"
  using assms
  by (auto simp: setArtifact_def log_def Let_def split: option.splits prod.splits if_splits)

lemma setArtifact_self: "self (snd (setArtifact ext r w)) = self w"
  by (auto simp: setArtifact_def log_def Let_def split: option.splits prod.splits if_splits)

lemma setArtifact_calls:
  "\<exists>cs. calls (snd (setArtifact ext r w)) = calls w @ cs \<and> list_all is_UnmarshalStrict cs"
  by (auto simp: setArtifact_def log_def Let_def split: option.splits prod.splits if_splits)

lemma setArtifact_heap_only:
  assumes "heap w' = heap w"
  shows "fst (setArtifact ext r w') = fst (setArtifact ext r w)
    \<and> heap (snd (setArtifact ext r w')) = heap (snd (setArtifact ext r w))"
  using assms
  by (auto simp: setArtifact_def log_def Let_def split: option.splits prod.splits if_splits)

lemma setArtifact_keeps_fields:
  assumes "setArtifact ext r w = (Return None, w1)" and "heap w r = Some artifact"
  shows "\<exists>artifact' cfg. heap w1 r = Some artifact'
    \<and> BazelArtifact (ArtifactType artifact') = Some cfg
    \<and> Workspace artifact' = Workspace artifact \<and> ImageName artifact' = ImageName artifact"
  using assms
  by (auto simp: setArtifact_def log_def Let_def split: option.splits prod.splits if_splits)

lemma mappingStruct_unknown_field:
  "(k, v) \<in> set kvs \<Longrightarrow> k \<noteq> BuildTarget_key \<Longrightarrow>
   (''field '' @ k @ '' not found in type latest.BazelArtifact'') \<in> set (snd (mappingStruct kvs seen a))"
proof (induction kvs arbitrary: seen a)
  case Nil
  then show ?case by simp
next
  case (Cons kv kvs)
  obtain k' v' where kv: "kv = (k', v')" by (cases kv)
  show ?case
  proof (cases "(k, v) = kv")
    case True
    then show ?thesis using Cons.prems kv by (auto split: prod.splits)
  next
    case False
    then have "(k, v) \<in> set kvs" using Cons.prems by simp
    then have "\<And>seen a. (''field '' @ k @ '' not found in type latest.BazelArtifact'')
        \<in> set (snd (mappingStruct kvs seen a))"
      using Cons.IH Cons.prems(2) by blast
    then show ?thesis
      unfolding kv by (auto split: prod.splits yaml.splits simp del: append.simps dest: sndI)
  qed
qed

section \<open>Facts about the loop and about local\<close>

lemma setArtifacts_append:
  "setArtifacts ext (xs @ ys) w =
     (case setArtifacts ext xs w of
        (Return None, w1) \<Rightarrow> setArtifacts ext ys w1
      | other \<Rightarrow> other)"
  by (induction xs arbitrary: w) (auto split: prod.splits outcome.splits option.splits)

lemma setArtifacts_self: "self (snd (setArtifacts ext rs w)) = self w"
proof (induction rs arbitrary: w)
  case Nil
  show ?case by simp
next
  case (Cons r rs)
  have s: "self (snd (setArtifact ext r w)) = self w" by (rule setArtifact_self)
  show ?case
    using s Cons.IH [of "snd (setArtifact ext r w)"]
    by (auto split: prod.splits outcome.splits option.splits)
qed

lemma setArtifacts_calls:
  "\<exists>cs. calls (snd (setArtifacts ext rs w)) = calls w @ cs \<and> list_all is_UnmarshalStrict cs"
proof (induction rs arbitrary: w)
  case Nil
  show ?case by simp
next
  case (Cons r rs)
  obtain cs where cs: "calls (snd (setArtifact ext r w)) = calls w @ cs" "list_all is_UnmarshalStrict cs"
    using setArtifact_calls by blast
  obtain ds where ds: "calls (snd (setArtifacts ext rs (snd (setArtifact ext r w))))
      = calls (snd (setArtifact ext r w)) @ ds" "list_all is_UnmarshalStrict ds"
    using Cons.IH by blast
  show ?case
  proof (cases "setArtifact ext r w")
    case (Pair res w1)
    then show ?thesis
      using cs ds by (cases res) (auto split: option.splits)
  qed
qed

lemma setArtifacts_selfD: "setArtifacts ext rs w = (res, w') \<Longrightarrow> self w' = self w"
  using setArtifacts_self [of ext rs w] by simp

lemma setArtifacts_callsD:
  "setArtifacts ext rs w = (res, w') \<Longrightarrow> \<exists>cs. calls w' = calls w @ cs \<and> list_all is_UnmarshalStrict cs"
  using setArtifacts_calls [of ext rs w] by simp

lemma setArtifacts_stops:
  assumes "setArtifacts ext pre w3 = (Return None, w4)"
    and "setArtifact ext a w4 = (Return (Some err), w5)"
  shows "\<exists>artifact. heap w5 a = Some artifact
    \<and> (\<forall>post. setArtifacts ext (pre @ a # post) w3 =
          (Return (Some (errors_Wrap err (''setting artifact '' @ ImageName artifact))), w5))"
proof -
  obtain artifact and plugin :: BuilderPlugin where h: "heap w4 a = Some artifact"
      and w5: "w5 = log (Call_UnmarshalStrict (Contents plugin)) w4"
    using setArtifact_error [OF assms(2)] by blast
  have h5: "heap w5 a = Some artifact" using h w5 by (simp add: log_def)
  have "setArtifacts ext (a # post) w4 =
          (Return (Some (errors_Wrap err (''setting artifact '' @ ImageName artifact))), w5)" for post
    using assms(2) h5 by simp
  then have "setArtifacts ext (pre @ a # post) w3 =
          (Return (Some (errors_Wrap err (''setting artifact '' @ ImageName artifact))), w5)" for post
    using assms(1) by (simp add: setArtifacts_append)
  then show ?thesis using h5 by blast
qed

lemma setArtifact_keeps_materialized:
  "materialized w r' \<Longrightarrow> materialized (snd (setArtifact ext r w)) r'"
  by (auto simp: materialized_def setArtifact_def log_def Let_def
      split: option.splits prod.splits if_splits)

lemma setArtifacts_keeps_materialized:
  "materialized w r' \<Longrightarrow> materialized (snd (setArtifacts ext rs w)) r'"
proof (induction rs arbitrary: w)
  case Nil
  then show ?case by simp
next
  case (Cons r rs)
  have m: "materialized (snd (setArtifact ext r w)) r'"
    using Cons.prems by (rule setArtifact_keeps_materialized)
  show ?case
  proof (cases "setArtifact ext r w")
    case (Pair res w1)
    then have m1: "materialized w1 r'" using m by simp
    show ?thesis
      using Pair m1 Cons.IH [OF m1]
      by (cases res) (auto split: option.splits)
  qed
qed

lemma setArtifacts_success_materialized:
  "setArtifacts ext rs w = (Return None, w') \<Longrightarrow> \<forall>r \<in> set rs. materialized w' r"
proof (induction rs arbitrary: w)
  case Nil
  then show ?case by simp
next
  case (Cons r rs)
  obtain res w1 where s: "setArtifact ext r w = (res, w1)" by (cases "setArtifact ext r w")
  have res: "res = Return None"
    using Cons.prems s by (cases res) (auto split: option.splits)
  then have rest: "setArtifacts ext rs w1 = (Return None, w')"
    using Cons.prems s by simp
  have "materialized w1 r"
    using setArtifact_success [of ext r w w1] s res by (auto simp: materialized_def)
  then have "materialized (snd (setArtifacts ext rs w1)) r"
    by (rule setArtifacts_keeps_materialized)
  then have "materialized w' r" using rest by simp
  then show ?case using Cons.IH [OF rest] by simp
qed

lemma local_prepared:
  assumes "env (self w) = Some e"
    and "util_CloneThroughJSON (Properties e) = (l, None)"
    and "kubectx_CurrentContext ext = (kubeContext, None)"
    and "opts (self w) = Some options"
    and "local_NewBuilder ext (case l of None \<Rightarrow> LocalBuild_zero | Some l' \<Rightarrow> l') kubeContext
           (SkipTests options) = (builder, None)"
    and "w3 = log (Call_NewBuilder (case l of None \<Rightarrow> LocalBuild_zero | Some l' \<Rightarrow> l') kubeContext
                 (SkipTests options))
               (log Call_CurrentContext (log (Call_CloneThroughJSON (Properties e)) w))"
  shows "local ext tags artifacts w =
     (case setArtifacts ext artifacts w3 of
        (Panic, w4) \<Rightarrow> (Panic, w4)
      | (Return (Some er), w4) \<Rightarrow> (Return ([], Some er), w4)
      | (Return None, w4) \<Rightarrow>
          (case local_Build ext builder tags artifacts (heap w4) of
             (res, heap') \<Rightarrow> (Return res, (log (Call_Build artifacts) w4)\<lparr>heap := heap'\<rparr>)))"
proof -
  have s: "opts (self (log Call_CurrentContext (log (Call_CloneThroughJSON (Properties e)) w))) = Some options"
    using assms(4) by (simp add: log_def)
  show ?thesis
    unfolding local_def assms(6)
    by (simp only: assms(1,2,3,5) s option.case prod.case Let_def)
qed

lemma local_delegates_materialized:
  assumes "env (self w) = Some e"
    and "util_CloneThroughJSON (Properties e) = (l, None)"
    and "kubectx_CurrentContext ext = (kubeContext, None)"
    and "opts (self w) = Some options"
    and "local_NewBuilder ext (case l of None \<Rightarrow> LocalBuild_zero | Some l' \<Rightarrow> l') kubeContext
           (SkipTests options) = (builder, None)"
    and "w3 = log (Call_NewBuilder (case l of None \<Rightarrow> LocalBuild_zero | Some l' \<Rightarrow> l') kubeContext
                 (SkipTests options))
               (log Call_CurrentContext (log (Call_CloneThroughJSON (Properties e)) w))"
    and "setArtifacts ext artifacts w3 = (Return None, w4)"
    and "local_Build ext builder tags artifacts (heap w4) = (res, heap')"
  shows "local ext tags artifacts w = (Return res, (log (Call_Build artifacts) w4)\<lparr>heap := heap'\<rparr>)"
    and "\<forall>r \<in> set artifacts. materialized w4 r"
proof -
  show "local ext tags artifacts w = (Return res, (log (Call_Build artifacts) w4)\<lparr>heap := heap'\<rparr>)"
    unfolding local_prepared [OF assms(1-6)] assms(7) using assms(8) by simp
  show "\<forall>r \<in> set artifacts. materialized w4 r"
    using assms(7) by (rule setArtifacts_success_materialized)
qed

lemma sublist_Error_Wrap: "sublist name (Error (errors_Wrap err (before @ name)))"
proof -
  have "Error (errors_Wrap err (before @ name)) = before @ name @ ('': '' @ Error err)"
    by (simp add: errors_Wrap_def)
  then show ?thesis by (simp only: sublist_appendI)
qed

lemma local_after_loop:
  assumes "env (self w) = Some e"
    and "util_CloneThroughJSON (Properties e) = (l, None)"
    and "kubectx_CurrentContext ext = (kubeContext, None)"
    and "opts (self w) = Some options"
    and "local_NewBuilder ext (case l of None \<Rightarrow> LocalBuild_zero | Some l' \<Rightarrow> l') kubeContext
           (SkipTests options) = (builder, None)"
    and "w3 = log (Call_NewBuilder (case l of None \<Rightarrow> LocalBuild_zero | Some l' \<Rightarrow> l') kubeContext
                 (SkipTests options))
               (log Call_CurrentContext (log (Call_CloneThroughJSON (Properties e)) w))"
  shows "self (snd (local ext tags artifacts w)) = self w
    \<and> (\<exists>cs. calls (snd (local ext tags artifacts w)) = calls w3 @ cs)"
proof -
  obtain res w4 where sa: "setArtifacts ext artifacts w3 = (res, w4)"
    by (cases "setArtifacts ext artifacts w3")
  have s4: "self w4 = self w"
    using setArtifacts_selfD [OF sa] assms(6) by (simp add: log_def)
  obtain cs where c4: "calls w4 = calls w3 @ cs"
    using setArtifacts_callsD [OF sa] by blast
  obtain bres heap' where lb: "local_Build ext builder tags artifacts (heap w4) = (bres, heap')"
    by (cases "local_Build ext builder tags artifacts (heap w4)")
  have "snd (local ext tags artifacts w) = w4
      \<or> snd (local ext tags artifacts w) = (log (Call_Build artifacts) w4)\<lparr>heap := heap'\<rparr>"
    unfolding local_prepared [OF assms] sa using lb
    by (cases res) (simp_all split: option.split)
  then show ?thesis
    using s4 c4 by (auto simp: log_def)
qed

lemma local_self: "self (snd (local ext tags artifacts w)) = self w"
proof (cases "env (self w)")
  case None
  then show ?thesis by (simp add: local_def)
next
  case (Some e)
  obtain l cerr where c: "util_CloneThroughJSON (Properties e) = (l, cerr)"
    by (cases "util_CloneThroughJSON (Properties e)")
  obtain kubeContext kerr where k: "kubectx_CurrentContext ext = (kubeContext, kerr)"
    by (cases "kubectx_CurrentContext ext")
  show ?thesis
  proof (cases cerr)
    case (Some er)
    then show ?thesis using \<open>env (self w) = Some e\<close> c by (simp add: local_def Let_def log_def)
  next
    case None
    note cn = this
    show ?thesis
    proof (cases kerr)
      case (Some er)
      then show ?thesis using \<open>env (self w) = Some e\<close> c cn k by (simp add: local_def Let_def log_def)
    next
      case None
      note kn = this
      show ?thesis
      proof (cases "opts (self w)")
        case None
        then show ?thesis
          using \<open>env (self w) = Some e\<close> c cn k kn by (simp add: local_def Let_def log_def)
      next
        case (Some options)
        obtain builder berr where b: "local_NewBuilder ext
            (case l of None \<Rightarrow> LocalBuild_zero | Some l' \<Rightarrow> l') kubeContext (SkipTests options) = (builder, berr)"
          by (cases "local_NewBuilder ext
            (case l of None \<Rightarrow> LocalBuild_zero | Some l' \<Rightarrow> l') kubeContext (SkipTests options)")
        show ?thesis
        proof (cases berr)
          case (Some er)
          then show ?thesis
            using \<open>env (self w) = Some e\<close> \<open>opts (self w) = Some options\<close> c cn k kn b
            by (simp add: local_def Let_def log_def)
        next
          case None
          show ?thesis
            using local_after_loop [OF \<open>env (self w) = Some e\<close> c [unfolded cn] k [unfolded kn]
                \<open>opts (self w) = Some options\<close> b [unfolded None] refl]
            by blast
        qed
      qed
    qed
  qed
qed

lemma local_calls:
  assumes "env (self w) = Some e" and "util_CloneThroughJSON (Properties e) = (l, None)"
  shows "\<exists>rest. calls (snd (local ext tags artifacts w))
        = calls w @ Call_CloneThroughJSON (Properties e) # Call_CurrentContext # rest
     \<and> (\<forall>kubeContext options.
          kubectx_CurrentContext ext = (kubeContext, None) \<and> opts (self w) = Some options \<longrightarrow>
          (\<exists>rest'. rest = Call_NewBuilder (case l of None \<Rightarrow> LocalBuild_zero | Some l' \<Rightarrow> l')
                      kubeContext (SkipTests options) # rest'))"
proof -
  obtain kubeContext kerr where k: "kubectx_CurrentContext ext = (kubeContext, kerr)"
    by (cases "kubectx_CurrentContext ext")
  show ?thesis
  proof (cases kerr)
    case (Some er)
    then have "calls (snd (local ext tags artifacts w))
        = calls w @ Call_CloneThroughJSON (Properties e) # Call_CurrentContext # []"
      using assms k by (simp add: local_def Let_def log_def)
    then show ?thesis using k Some by auto
  next
    case None
    note kn = this
    show ?thesis
    proof (cases "opts (self w)")
      case None
      then have "calls (snd (local ext tags artifacts w))
          = calls w @ Call_CloneThroughJSON (Properties e) # Call_CurrentContext # []"
        using assms k kn by (simp add: local_def Let_def log_def)
      then show ?thesis using None by auto
    next
      case (Some options)
      obtain builder berr where b: "local_NewBuilder ext
          (case l of None \<Rightarrow> LocalBuild_zero | Some l' \<Rightarrow> l') kubeContext (SkipTests options) = (builder, berr)"
        by (cases "local_NewBuilder ext
          (case l of None \<Rightarrow> LocalBuild_zero | Some l' \<Rightarrow> l') kubeContext (SkipTests options)")
      have "\<exists>rest'. calls (snd (local ext tags artifacts w))
          = calls w @ Call_CloneThroughJSON (Properties e) # Call_CurrentContext #
              Call_NewBuilder (case l of None \<Rightarrow> LocalBuild_zero | Some l' \<Rightarrow> l')
                kubeContext (SkipTests options) # rest'"
      proof (cases berr)
        case (Some er)
        then show ?thesis
          using assms \<open>opts (self w) = Some options\<close> k kn b by (simp add: local_def Let_def log_def)
      next
        case None
        show ?thesis
          using local_after_loop [OF assms k [unfolded kn] \<open>opts (self w) = Some options\<close>
              b [unfolded None] refl, of tags artifacts]
          by (auto simp: log_def)
      qed
      then show ?thesis using k kn Some by auto
    qed
  qed
qed

lemma util_CloneThroughJSON_absent:
  "properties = None \<or> properties = Some [] \<Longrightarrow>
   \<exists>l. util_CloneThroughJSON properties = (l, None)
     \<and> (case l of None \<Rightarrow> LocalBuild_zero | Some l' \<Rightarrow> l') = LocalBuild_zero"
  by (auto simp: util_CloneThroughJSON_def)

lemma util_CloneThroughJSON_fails:
  "util_CloneThroughJSON properties = (l, Some er) \<Longrightarrow> \<exists>kvs. properties = Some kvs \<and> kvs \<noteq> []"
  by (auto simp: util_CloneThroughJSON_def split: option.splits if_splits)

section \<open>Facts about paths and dependencies\<close>

lemma IsAbs_Clean: "IsAbs path \<Longrightarrow> IsAbs (Clean path)"
  by (simp add: Clean_def Let_def IsAbs_def)

lemma IsAbs_Join: "IsAbs a \<Longrightarrow> IsAbs (Join a b)"
proof -
  assume a: "IsAbs a"
  then have "a \<noteq> []" by (auto simp: IsAbs_def)
  moreover have "IsAbs (a @ ''/'' @ b)" using a by (cases a) (auto simp: IsAbs_def)
  ultimately show ?thesis by (simp add: Join_def IsAbs_Clean)
qed

lemma IsAbs_Abs: "IsAbs wd \<Longrightarrow> IsAbs (Abs wd path)"
  by (simp add: Abs_def IsAbs_Clean IsAbs_Join)

lemma is_under_refl: "is_under dir dir"
  by (simp add: is_under_def)

lemma normalizes_nth:
  assumes "normalizes wd f"
  shows "length (f workspace paths) = length paths
    \<and> (\<forall>i < length paths.
          IsAbs (f workspace paths ! i)
        \<and> (IsAbs (paths ! i) \<longrightarrow> f workspace paths ! i = paths ! i)
        \<and> (\<not> IsAbs (paths ! i) \<longrightarrow> is_under (Abs wd workspace) (f workspace paths ! i)))"
proof -
  have l: "list_all2 (normalized wd workspace) paths (f workspace paths)"
    using assms by (simp add: normalizes_def)
  then have len: "length (f workspace paths) = length paths"
    by (simp add: list_all2_lengthD)
  have "normalized wd workspace (paths ! i) (f workspace paths ! i)" if "i < length paths" for i
    using l that by (rule list_all2_nthD)
  then show ?thesis
    using len by (simp add: normalized_def)
qed

lemma normalizes_absolute:
  assumes "normalizes wd f"
  shows "\<forall>path \<in> set (f workspace paths). IsAbs path"
proof
  fix path
  assume "path \<in> set (f workspace paths)"
  then obtain i where i: "i < length (f workspace paths)" "f workspace paths ! i = path"
    by (auto simp: in_set_conv_nth)
  then show "IsAbs path"
    using normalizes_nth [OF assms, of workspace paths] by auto
qed

lemma demo_AbsolutePaths_normalizes: "normalizes demo_wd demo_AbsolutePaths"
proof -
  have wd: "IsAbs demo_wd" by (simp add: demo_wd_def IsAbs_def)
  have "normalized demo_wd workspace path
      (if IsAbs path then path
       else if is_under (Abs demo_wd workspace) (Join (Abs demo_wd workspace) path)
         then Join (Abs demo_wd workspace) path
         else Abs demo_wd workspace)" for workspace path
    using IsAbs_Abs [OF wd, of workspace] IsAbs_Join [of "Abs demo_wd workspace" path]
    by (simp add: normalized_def is_under_refl)
  then show ?thesis
    by (simp add: normalizes_def demo_AbsolutePaths_def list_all2_map2 list_all2_same)
qed

lemma DependenciesForArtifact_success:
  assumes "DependenciesForArtifact ext r w = (Return (paths, None), w')"
    and "heap w r = Some artifact"
  shows "\<exists>artifact' cfg enumerated.
      heap w' r = Some artifact' \<and> BazelArtifact (ArtifactType artifact') = Some cfg
    \<and> (BazelArtifact (ArtifactType artifact) \<noteq> None \<longrightarrow>
          BazelArtifact (ArtifactType artifact) = Some cfg)
    \<and> (BazelArtifact (ArtifactType artifact) = None \<longrightarrow>
          (\<exists>plugin. BuilderPlugin artifact = Some plugin
             \<and> yaml_UnmarshalStrict ext (Contents plugin) = (Some cfg, None)))
    \<and> calls w' = calls (snd (setArtifact ext r w))
          @ [Call_bazel_GetDependencies (Workspace artifact) cfg]
    \<and> bazel_GetDependencies ext (Workspace artifact) cfg = (enumerated, None)
    \<and> paths = util_AbsolutePaths ext (Workspace artifact) enumerated"
proof (cases "BazelArtifact (ArtifactType artifact)")
  case (Some cfg)
  have s: "setArtifact ext r w = (Return None, w)"
    using assms(2) Some by (rule setArtifact_materialized)
  obtain enumerated err where g: "bazel_GetDependencies ext (Workspace artifact) cfg = (enumerated, err)"
    by (cases "bazel_GetDependencies ext (Workspace artifact) cfg")
  have d: "DependenciesForArtifact ext r w =
      (case err of
         Some e \<Rightarrow> (Return ([], Some (errors_Wrap e ''getting bazel dependencies'')),
                    log (Call_bazel_GetDependencies (Workspace artifact) cfg) w)
       | None \<Rightarrow> (Return (util_AbsolutePaths ext (Workspace artifact) enumerated, None),
                  log (Call_bazel_GetDependencies (Workspace artifact) cfg) w))"
    using s assms(2) Some g by (simp add: DependenciesForArtifact_def Let_def)
  have err: "err = None" using assms(1) d by (cases err) simp_all
  then have "paths = util_AbsolutePaths ext (Workspace artifact) enumerated"
      and "w' = log (Call_bazel_GetDependencies (Workspace artifact) cfg) w"
    using assms(1) d by simp_all
  then show ?thesis
    using assms(2) Some s g err by (simp add: log_def)
next
  case None
  obtain res w1 where s: "setArtifact ext r w = (res, w1)" by (cases "setArtifact ext r w")
  have res: "res = Return None"
    using assms(1) s by (auto simp: DependenciesForArtifact_def split: outcome.splits option.splits)
  have "\<exists>plugin cfg. BuilderPlugin artifact = Some plugin
      \<and> yaml_UnmarshalStrict ext (Contents plugin) = (Some cfg, None)
      \<and> w1 = (log (Call_UnmarshalStrict (Contents plugin)) w)\<lparr>heap := (heap w)(r \<mapsto>
            artifact\<lparr>ArtifactType := (ArtifactType artifact)\<lparr>BazelArtifact := Some cfg\<rparr>\<rparr>)\<rparr>"
    using s res assms(2) None
    by (auto simp: setArtifact_def log_def Let_def split: option.splits prod.splits if_splits)
  then obtain plugin cfg where p: "BuilderPlugin artifact = Some plugin"
      and u: "yaml_UnmarshalStrict ext (Contents plugin) = (Some cfg, None)"
      and w1: "w1 = (log (Call_UnmarshalStrict (Contents plugin)) w)\<lparr>heap := (heap w)(r \<mapsto>
            artifact\<lparr>ArtifactType := (ArtifactType artifact)\<lparr>BazelArtifact := Some cfg\<rparr>\<rparr>)\<rparr>"
    by blast
  obtain enumerated err where g: "bazel_GetDependencies ext (Workspace artifact) cfg = (enumerated, err)"
    by (cases "bazel_GetDependencies ext (Workspace artifact) cfg")
  have s1: "setArtifact ext r w = (Return None, w1)" using s res by simp
  have h1: "heap w1 r = Some (artifact\<lparr>ArtifactType :=
      (ArtifactType artifact)\<lparr>BazelArtifact := Some cfg\<rparr>\<rparr>)"
    unfolding w1 by (simp add: log_def)
  have d: "DependenciesForArtifact ext r w =
      (case err of
         Some e \<Rightarrow> (Return ([], Some (errors_Wrap e ''getting bazel dependencies'')),
                    log (Call_bazel_GetDependencies (Workspace artifact) cfg) w1)
       | None \<Rightarrow> (Return (util_AbsolutePaths ext (Workspace artifact) enumerated, None),
                  log (Call_bazel_GetDependencies (Workspace artifact) cfg) w1))"
    using g by (simp add: DependenciesForArtifact_def s1 h1 Let_def)
  have err: "err = None" using assms(1) d by (cases err) simp_all
  then have "paths = util_AbsolutePaths ext (Workspace artifact) enumerated"
      and "w' = log (Call_bazel_GetDependencies (Workspace artifact) cfg) w1"
    using assms(1) d by simp_all
  then show ?thesis
    using None p u h1 s1 g err by (simp add: log_def)
qed

lemma gcb_DependenciesForArtifact_success:
  assumes "gcb_DependenciesForArtifact ext r w = (Return (paths, None), w')"
    and "heap w r = Some artifact"
  shows "\<exists>enumerated.
      docker_GetDependencies ext (Workspace artifact) (DockerArtifact (ArtifactType artifact)) = (enumerated, None)
    \<and> paths = util_AbsolutePaths ext (Workspace artifact) enumerated
    \<and> w' = log (Call_docker_GetDependencies (Workspace artifact)
               (DockerArtifact (ArtifactType artifact))) w"
  using assms
  by (auto simp: gcb_DependenciesForArtifact_def Let_def split: option.splits prod.splits)

lemma not_nil_message:
  "name @ '' must have an associated build target'' \<noteq> ''bazel artifact is nil''"
proof
  assume "name @ '' must have an associated build target'' = ''bazel artifact is nil''"
  then have "length (name @ '' must have an associated build target'') = length ''bazel artifact is nil''"
    by (rule arg_cong)
  then show False by simp
qed

lemma DependenciesForArtifact_enumerator_fails:
  assumes "heap w r = Some artifact" and "BazelArtifact (ArtifactType artifact) = Some cfg"
    and "bazel_GetDependencies ext (Workspace artifact) cfg = (paths, Some e)"
  shows "DependenciesForArtifact ext r w =
     (Return ([], Some (errors_Wrap e ''getting bazel dependencies'')),
      log (Call_bazel_GetDependencies (Workspace artifact) cfg) w)"
  using assms setArtifact_materialized [OF assms(1,2), of ext]
  by (simp add: DependenciesForArtifact_def Let_def)

lemma gcb_DependenciesForArtifact_enumerator_fails:
  assumes "heap w r = Some a"
    and "docker_GetDependencies ext (Workspace a) (DockerArtifact (ArtifactType a)) = (paths, Some e)"
  shows "gcb_DependenciesForArtifact ext r w =
     (Return ([], Some (errors_Wrap e (''getting dependencies for '' @ ImageName a))),
      log (Call_docker_GetDependencies (Workspace a) (DockerArtifact (ArtifactType a))) w)"
  using assms by (simp add: gcb_DependenciesForArtifact_def Let_def)

section \<open>Evaluation at the concrete inputs\<close>

lemmas demo_defs = demo_world_def demo_ext_def demo_parse_def app_def unset_def env_local_def
  payload_app_def payload_empty_target_def payload_unknown_field_def

lemmas model_defs = setArtifact_def DependenciesForArtifact_def gcb_DependenciesForArtifact_def
  yaml_UnmarshalStrict_def decode_strict_def yaml_TypeError_def BuildTarget_key_def
  BazelArtifact_zero_def errors_New_def errors_Wrap_def log_def Let_def
  demo_AbsolutePaths_def demo_wd_def IsAbs_def Join_def Clean_def names_def Abs_def is_under_def

section \<open>Materialization\<close>

text \<open>
  Claim C1 (idempotent materialization). When the artifact already holds a Bazel
  configuration, \<open>setArtifact\<close> returns success and leaves the store and the log of
  outside calls as they were: nothing is decoded, and the result is the same whatever
  the decoder would have answered. After a call that succeeded, a second call is such
  a no-op. Whatever the first call did, the artifacts after two calls are the artifacts
  after one.
\<close>

theorem setArtifact_idempotent:
  "(heap w r = Some artifact \<and> BazelArtifact (ArtifactType artifact) = Some cfg \<longrightarrow>
      setArtifact ext r w = (Return None, w) \<and> setArtifact ext' r w = setArtifact ext r w)
   \<and> (setArtifact ext r w = (Return None, w1) \<longrightarrow> setArtifact ext r w1 = (Return None, w1))
   \<and> heap (snd (setArtifact ext r (snd (setArtifact ext r w)))) = heap (snd (setArtifact ext r w))"
proof (intro conjI impI)
  assume "heap w r = Some artifact \<and> BazelArtifact (ArtifactType artifact) = Some cfg"
  then show "setArtifact ext r w = (Return None, w)" and "setArtifact ext' r w = setArtifact ext r w"
    by (simp_all add: setArtifact_materialized)
next
  assume "setArtifact ext r w = (Return None, w1)"
  then obtain artifact' cfg' where "heap w1 r = Some artifact'"
      "BazelArtifact (ArtifactType artifact') = Some cfg'"
    using setArtifact_success by blast
  then show "setArtifact ext r w1 = (Return None, w1)"
    by (rule setArtifact_materialized)
next
  obtain res w1 where first: "setArtifact ext r w = (res, w1)" by (cases "setArtifact ext r w")
  show "heap (snd (setArtifact ext r (snd (setArtifact ext r w)))) = heap (snd (setArtifact ext r w))"
  proof (cases res)
    case Panic
    then have "w1 = w" using first setArtifact_panic by blast
    then show ?thesis using first by simp
  next
    case (Return eo)
    show ?thesis
    proof (cases eo)
      case None
      then obtain artifact' cfg' where "heap w1 r = Some artifact'"
          "BazelArtifact (ArtifactType artifact') = Some cfg'"
        using first Return setArtifact_success by blast
      then have "setArtifact ext r w1 = (Return None, w1)" by (rule setArtifact_materialized)
      then show ?thesis using first by simp
    next
      case (Some e)
      then obtain c where "w1 = log c w" using first Return setArtifact_error by blast
      then have "heap w1 = heap w" by (simp add: log_def)
      then have "heap (snd (setArtifact ext r w1)) = heap (snd (setArtifact ext r w))"
        using setArtifact_heap_only by blast
      then show ?thesis using first by simp
    qed
  qed
qed

text \<open>
  C1 at the materialized artifact of the scenario, and at the artifact that the first
  call materializes.
\<close>

theorem setArtifact_idempotent_witness:
  "heap (demo_world [app_materialized] env_local) 0 = Some app_materialized
   \<and> BazelArtifact (ArtifactType app_materialized) = Some \<lparr>BuildTarget = ''//:app''\<rparr>
   \<and> setArtifact demo_ext 0 (demo_world [app_materialized] env_local)
       = (Return None, demo_world [app_materialized] env_local)
   \<and> fst (setArtifact demo_ext 0 (demo_world [app] env_local)) = Return None
   \<and> setArtifact demo_ext 0 (snd (setArtifact demo_ext 0 (demo_world [app] env_local)))
       = (Return None, snd (setArtifact demo_ext 0 (demo_world [app] env_local)))"
proof -
  have h1: "heap (demo_world [app_materialized] env_local) 0 = Some app_materialized"
    by (simp add: demo_defs app_materialized_def)
  have h2: "BazelArtifact (ArtifactType app_materialized) = Some \<lparr>BuildTarget = ''//:app''\<rparr>"
    by (simp add: demo_defs app_materialized_def)
  have h3: "fst (setArtifact demo_ext 0 (demo_world [app] env_local)) = Return None"
    by (simp add: demo_defs app_materialized_def model_defs)
  then have h4: "setArtifact demo_ext 0 (demo_world [app] env_local)
      = (Return None, snd (setArtifact demo_ext 0 (demo_world [app] env_local)))"
    by (metis prod.collapse)
  show ?thesis
    using h1 h2 h3 h4
      setArtifact_idempotent [where w = "demo_world [app_materialized] env_local" and r = 0
        and artifact = app_materialized and cfg = "\<lparr>BuildTarget = ''//:app''\<rparr>"
        and ext = demo_ext and ext' = demo_ext]
      setArtifact_idempotent [where w = "demo_world [app] env_local" and r = 0
        and ext = demo_ext and ext' = demo_ext
        and ?w1.0 = "snd (setArtifact demo_ext 0 (demo_world [app] env_local))"]
    by blast
qed

text \<open>
  Claim C3 (strict decode). When the artifact holds no Bazel configuration and its
  payload is a mapping with a key that is no field of the schema, the strict decoder
  returns an error that names the key, and \<open>setArtifact\<close> returns that error wrapped
  with \<open>unmarshalling bazel artifact\<close>; the store is unchanged, so nothing of the
  payload is kept.
\<close>

theorem setArtifact_strict_decode:
  assumes "heap w r = Some artifact" and "BazelArtifact (ArtifactType artifact) = None"
    and "BuilderPlugin artifact = Some plugin"
    and "yaml_parse ext (Contents plugin) = Inr (YMap kvs)"
    and "(k, v) \<in> set kvs" and "k \<noteq> BuildTarget_key"
  shows "\<exists>errs partial.
      yaml_UnmarshalStrict ext (Contents plugin) = (partial, Some (yaml_TypeError errs))
    \<and> (''field '' @ k @ '' not found in type latest.BazelArtifact'') \<in> set errs
    \<and> setArtifact ext r w =
        (Return (Some (errors_Wrap (yaml_TypeError errs) ''unmarshalling bazel artifact'')),
         log (Call_UnmarshalStrict (Contents plugin)) w)
    \<and> heap (log (Call_UnmarshalStrict (Contents plugin)) w) = heap w"
proof -
  obtain a errs where m: "mappingStruct kvs [] BazelArtifact_zero = (a, errs)"
    by (cases "mappingStruct kvs [] BazelArtifact_zero")
  have mem: "(''field '' @ k @ '' not found in type latest.BazelArtifact'') \<in> set errs"
    using mappingStruct_unknown_field [OF assms(5,6), of "[]" BazelArtifact_zero] m by simp
  then have ne: "errs \<noteq> []" by auto
  have u: "yaml_UnmarshalStrict ext (Contents plugin) = (Some a, Some (yaml_TypeError errs))"
    using assms(4) m ne by (simp add: yaml_UnmarshalStrict_def decode_strict_def)
  show ?thesis
    using setArtifact_fresh [OF assms(1-3) u] u mem
    by (intro exI [of _ errs] exI [of _ "Some a"]) (simp add: log_def)
qed

text \<open>C3 at a payload with the extra key \<open>colour\<close>.\<close>

theorem setArtifact_strict_decode_witness:
  "fst (setArtifact demo_ext 0 (demo_world [app_unknown_field] env_local))
     = Return (Some (errors_Wrap
         (yaml_TypeError [''field colour not found in type latest.BazelArtifact''])
         ''unmarshalling bazel artifact''))
   \<and> heap (snd (setArtifact demo_ext 0 (demo_world [app_unknown_field] env_local))) 0
     = Some app_unknown_field"
proof -
  have h1: "heap (demo_world [app_unknown_field] env_local) 0 = Some app_unknown_field"
    by (simp add: demo_defs app_unknown_field_def)
  have h2: "BazelArtifact (ArtifactType app_unknown_field) = None" by (simp add: demo_defs app_unknown_field_def)
  have h3: "BuilderPlugin app_unknown_field = Some \<lparr>Contents = payload_unknown_field\<rparr>"
    by (simp add: demo_defs app_unknown_field_def)
  have h4: "yaml_parse demo_ext (Contents \<lparr>Contents = payload_unknown_field\<rparr>)
      = Inr (YMap [(''buildTarget'', YScalar ''//:app''), (''colour'', YScalar ''red'')])"
    by (simp add: demo_defs app_unknown_field_def)
  have h5: "(''colour'', YScalar ''red'')
      \<in> set [(''buildTarget'', YScalar ''//:app''), (''colour'', YScalar ''red'')]"
    by simp
  have h6: "''colour'' \<noteq> BuildTarget_key" by (simp add: BuildTarget_key_def)
  have u: "yaml_UnmarshalStrict demo_ext (Contents \<lparr>Contents = payload_unknown_field\<rparr>)
      = (Some \<lparr>BuildTarget = ''//:app''\<rparr>,
         Some (yaml_TypeError [''field colour not found in type latest.BazelArtifact'']))"
    by (simp add: demo_defs app_unknown_field_def yaml_UnmarshalStrict_def decode_strict_def BuildTarget_key_def
        BazelArtifact_zero_def)
  obtain errs partial where
    e: "yaml_UnmarshalStrict demo_ext (Contents \<lparr>Contents = payload_unknown_field\<rparr>)
          = (partial, Some (yaml_TypeError errs))"
    and s: "setArtifact demo_ext 0 (demo_world [app_unknown_field] env_local) =
        (Return (Some (errors_Wrap (yaml_TypeError errs) ''unmarshalling bazel artifact'')),
         log (Call_UnmarshalStrict (Contents \<lparr>Contents = payload_unknown_field\<rparr>))
           (demo_world [app_unknown_field] env_local))"
    using setArtifact_strict_decode [OF h1 h2 h3 h4 h5 h6] by blast
  have "yaml_TypeError errs = yaml_TypeError [''field colour not found in type latest.BazelArtifact'']"
    using e u by simp
  then show ?thesis using s h1 by (simp add: log_def)
qed

text \<open>
  Claim C4 (the required build target). When the artifact holds no Bazel configuration
  and its payload decodes, without error, to a configuration whose build target is the
  empty string, \<open>setArtifact\<close> returns the error whose message is the image name of
  the artifact followed by \<open>must have an associated build target\<close>; the message
  contains the image name; the decoder was called once, and the store is unchanged, so
  the artifact still holds no configuration.
\<close>

theorem setArtifact_requires_build_target:
  assumes "heap w r = Some artifact" and "BazelArtifact (ArtifactType artifact) = None"
    and "BuilderPlugin artifact = Some plugin"
    and "yaml_UnmarshalStrict ext (Contents plugin) = (Some cfg, None)"
    and "BuildTarget cfg = []"
  shows "setArtifact ext r w =
      (Return (Some (errors_New (ImageName artifact @ '' must have an associated build target''))),
       log (Call_UnmarshalStrict (Contents plugin)) w)
    \<and> sublist (ImageName artifact)
        (Error (errors_New (ImageName artifact @ '' must have an associated build target'')))
    \<and> heap (log (Call_UnmarshalStrict (Contents plugin)) w) = heap w"
proof -
  have "sublist (ImageName artifact) (ImageName artifact @ '' must have an associated build target'')"
    by (rule sublist_append_rightI)
  then show ?thesis
    using setArtifact_fresh [OF assms(1-4)] assms(5)
    by (simp add: errors_New_def log_def)
qed

text \<open>C4 at the scenario's artifact with a payload whose build target is empty.\<close>

theorem setArtifact_requires_build_target_witness:
  "setArtifact demo_ext 0 (demo_world [app_empty_target] env_local)
     = (Return (Some (fundamental ''app must have an associated build target'')),
        log (Call_UnmarshalStrict payload_empty_target) (demo_world [app_empty_target] env_local))
   \<and> sublist ''app'' ''app must have an associated build target''"
proof -
  have h1: "heap (demo_world [app_empty_target] env_local) 0 = Some app_empty_target"
    by (simp add: demo_defs app_empty_target_def)
  have h2: "BazelArtifact (ArtifactType app_empty_target) = None" by (simp add: demo_defs app_empty_target_def)
  have h3: "BuilderPlugin app_empty_target = Some \<lparr>Contents = payload_empty_target\<rparr>"
    by (simp add: demo_defs app_empty_target_def)
  have h4: "yaml_UnmarshalStrict demo_ext (Contents \<lparr>Contents = payload_empty_target\<rparr>)
      = (Some \<lparr>BuildTarget = []\<rparr>, None)"
    by (simp add: demo_defs app_empty_target_def model_defs)
  have h5: "BuildTarget \<lparr>BuildTarget = []\<rparr> = []" by simp
  have n: "ImageName app_empty_target = ''app''" by (simp add: demo_defs app_empty_target_def)
  show ?thesis
    using setArtifact_requires_build_target [OF h1 h2 h3 h4 h5]
    by (simp add: n errors_New_def)
qed

text \<open>
  Claim C10 (a configuration that is already there is not validated). When the
  artifact already holds a Bazel configuration whose build target is the empty string,
  \<open>setArtifact\<close> returns success and changes nothing. The build target is checked
  only on the way in: when the artifact held no configuration and \<open>setArtifact\<close>
  succeeds, the configuration that it stored has a build target that is not empty.
\<close>

theorem setArtifact_prepopulated_unvalidated:
  "(heap w r = Some artifact \<and> BazelArtifact (ArtifactType artifact) = Some cfg \<and> BuildTarget cfg = []
      \<longrightarrow> setArtifact ext r w = (Return None, w))
   \<and> (heap w r = Some artifact \<and> BazelArtifact (ArtifactType artifact) = None
        \<and> setArtifact ext r w = (Return None, w1) \<longrightarrow>
        (\<exists>decoded. heap w1 r = Some (artifact\<lparr>ArtifactType :=
             (ArtifactType artifact)\<lparr>BazelArtifact := Some decoded\<rparr>\<rparr>) \<and> BuildTarget decoded \<noteq> []))"
  by (auto simp: setArtifact_def log_def Let_def split: option.splits prod.splits if_splits)

text \<open>
  C10 at an artifact that arrives with an empty build target and no payload, and at the
  artifact of the scenario.
\<close>

theorem setArtifact_prepopulated_unvalidated_witness:
  "BazelArtifact (ArtifactType app_prepopulated_empty) = Some \<lparr>BuildTarget = []\<rparr>
   \<and> setArtifact demo_ext 0 (demo_world [app_prepopulated_empty] env_local)
       = (Return None, demo_world [app_prepopulated_empty] env_local)
   \<and> fst (setArtifact demo_ext 0 (demo_world [app] env_local)) = Return None
   \<and> (\<exists>decoded. heap (snd (setArtifact demo_ext 0 (demo_world [app] env_local))) 0
         = Some (app\<lparr>ArtifactType := (ArtifactType app)\<lparr>BazelArtifact := Some decoded\<rparr>\<rparr>)
       \<and> BuildTarget decoded \<noteq> [])"
proof -
  have h1: "heap (demo_world [app_prepopulated_empty] env_local) 0 = Some app_prepopulated_empty"
    by (simp add: demo_defs app_prepopulated_empty_def)
  have h2: "BazelArtifact (ArtifactType app_prepopulated_empty) = Some \<lparr>BuildTarget = []\<rparr>"
    by (simp add: demo_defs app_prepopulated_empty_def)
  have h3: "fst (setArtifact demo_ext 0 (demo_world [app] env_local)) = Return None"
    by (simp add: demo_defs app_prepopulated_empty_def model_defs)
  then have h4: "setArtifact demo_ext 0 (demo_world [app] env_local)
      = (Return None, snd (setArtifact demo_ext 0 (demo_world [app] env_local)))"
    by (metis prod.collapse)
  have h5: "heap (demo_world [app] env_local) 0 = Some app" by (simp add: demo_defs app_prepopulated_empty_def)
  have h6: "BazelArtifact (ArtifactType app) = None" by (simp add: demo_defs app_prepopulated_empty_def)
  show ?thesis
    using h1 h2 h3 h4 h5 h6
      setArtifact_prepopulated_unvalidated [where w = "demo_world [app_prepopulated_empty] env_local"
        and r = 0 and artifact = app_prepopulated_empty and cfg = "\<lparr>BuildTarget = []\<rparr>"
        and ext = demo_ext]
      setArtifact_prepopulated_unvalidated [where w = "demo_world [app] env_local"
        and r = 0 and artifact = app and ext = demo_ext
        and ?w1.0 = "snd (setArtifact demo_ext 0 (demo_world [app] env_local))"]
    by simp
qed

section \<open>The dispatcher and the batch\<close>

text \<open>
  Claim C5 (rejection by the dispatcher). When the name of the execution environment
  is not \<open>constants.Local\<close>, \<open>Build\<close> returns no build results and the error whose
  message is the name followed by \<open>is not a supported environment for builder bazel\<close>;
  the world is returned as it was, for every batch: no collaborator was called and no
  artifact was written. \<open>constants.Local\<close> is the only name that is dispatched: with
  it, \<open>Build\<close> is \<open>local\<close>.
\<close>

theorem Build_rejects_unsupported_environment:
  assumes "env (self w) = Some e"
  shows "(Name e \<noteq> constants_Local \<longrightarrow>
        Build ext tags artifacts w =
          (Return ([], Some (errors_New (Name e @ '' is not a supported environment for builder bazel''))), w)
        \<and> sublist (Name e)
            (Error (errors_New (Name e @ '' is not a supported environment for builder bazel''))))
    \<and> (Name e = constants_Local \<longrightarrow> Build ext tags artifacts w = local ext tags artifacts w)"
proof -
  have "sublist (Name e) (Name e @ '' is not a supported environment for builder bazel'')"
    by (rule sublist_append_rightI)
  then show ?thesis
    using assms by (simp add: Build_def errors_New_def)
qed

text \<open>C5 at the environments \<open>remote-unknown\<close> and \<open>local\<close>.\<close>

theorem Build_rejects_unsupported_environment_witness:
  "Name env_remote \<noteq> constants_Local
   \<and> Build demo_ext [] [0, 1] (demo_world [app, web] env_remote)
     = (Return ([], Some (fundamental
          ''remote-unknown is not a supported environment for builder bazel'')),
        demo_world [app, web] env_remote)
   \<and> Build demo_ext [] [0, 1] (demo_world [app, web] env_local)
     = local demo_ext [] [0, 1] (demo_world [app, web] env_local)"
proof -
  have h1: "env (self (demo_world [app, web] env_remote)) = Some env_remote"
    by (simp add: demo_defs env_remote_def web_def)
  have h2: "env (self (demo_world [app, web] env_local)) = Some env_local"
    by (simp add: demo_defs env_remote_def web_def)
  have n1: "Name env_remote \<noteq> constants_Local" by (simp add: demo_defs env_remote_def web_def constants_Local_def)
  have n2: "Name env_local = constants_Local" by (simp add: demo_defs env_remote_def web_def constants_Local_def)
  have n3: "Name env_remote = ''remote-unknown''" by (simp add: demo_defs env_remote_def web_def)
  show ?thesis
    using n1 n2 Build_rejects_unsupported_environment [OF h1, of demo_ext "[]" "[0, 1]"]
      Build_rejects_unsupported_environment [OF h2, of demo_ext "[]" "[0, 1]"]
    by (simp add: n3 errors_New_def)
qed

text \<open>
  Claim C2 (the batch materializes wholly or the build is not attempted). Let the
  environment be local and let the steps before the loop succeed (the properties are
  adapted, the cluster context is found, the local builder is made). If
  \<open>setArtifact\<close> succeeds for the first \<open>k\<close> artifacts of the batch and returns an
  error for the artifact at index \<open>k\<close>, then \<open>Build\<close> returns no build results and that
  error wrapped with \<open>setting artifact\<close> and the image name of that artifact; the
  message contains the image name; the world is the world right after the failed
  \<open>setArtifact\<close>; the calls made are the three of the steps before the loop and calls
  of the decoder, so the delegated builder was not called; and the artifacts after
  index \<open>k\<close> play no part: with any other tail the result is the same.
\<close>

theorem Build_all_or_nothing:
  assumes "env (self w) = Some e" and "Name e = constants_Local"
    and "util_CloneThroughJSON (Properties e) = (l, None)"
    and "kubectx_CurrentContext ext = (kubeContext, None)"
    and "opts (self w) = Some options"
    and "local_NewBuilder ext (case l of None \<Rightarrow> LocalBuild_zero | Some l' \<Rightarrow> l') kubeContext
           (SkipTests options) = (builder, None)"
    and "w3 = log (Call_NewBuilder (case l of None \<Rightarrow> LocalBuild_zero | Some l' \<Rightarrow> l') kubeContext
                 (SkipTests options))
               (log Call_CurrentContext (log (Call_CloneThroughJSON (Properties e)) w))"
    and "k < length artifacts"
    and "setArtifacts ext (take k artifacts) w3 = (Return None, w4)"
    and "setArtifact ext (artifacts ! k) w4 = (Return (Some err), w5)"
  shows "\<exists>artifact cs.
      heap w5 (artifacts ! k) = Some artifact
    \<and> Build ext tags artifacts w =
        (Return ([], Some (errors_Wrap err (''setting artifact '' @ ImageName artifact))), w5)
    \<and> sublist (ImageName artifact)
        (Error (errors_Wrap err (''setting artifact '' @ ImageName artifact)))
    \<and> calls w5 = calls w @ [Call_CloneThroughJSON (Properties e), Call_CurrentContext,
          Call_NewBuilder (case l of None \<Rightarrow> LocalBuild_zero | Some l' \<Rightarrow> l') kubeContext
            (SkipTests options)] @ cs
    \<and> list_all is_UnmarshalStrict cs
    \<and> heap w5 = heap w4
    \<and> (\<forall>rest. Build ext tags (take k artifacts @ artifacts ! k # rest) w = Build ext tags artifacts w)"
proof -
  obtain artifact where a: "heap w5 (artifacts ! k) = Some artifact"
    and stop: "\<And>post. setArtifacts ext (take k artifacts @ artifacts ! k # post) w3 =
          (Return (Some (errors_Wrap err (''setting artifact '' @ ImageName artifact))), w5)"
    using setArtifacts_stops [OF assms(9,10)] by blast
  have build: "Build ext tags (take k artifacts @ artifacts ! k # post) w =
        (Return ([], Some (errors_Wrap err (''setting artifact '' @ ImageName artifact))), w5)" for post
  proof -
    have "Build ext tags (take k artifacts @ artifacts ! k # post) w
        = local ext tags (take k artifacts @ artifacts ! k # post) w"
      using assms(1,2) by (simp add: Build_def)
    also have "\<dots> = (Return ([], Some (errors_Wrap err (''setting artifact '' @ ImageName artifact))), w5)"
      unfolding local_prepared [OF assms(1,3,4,5,6,7)] stop by simp
    finally show ?thesis .
  qed
  have split: "artifacts = take k artifacts @ artifacts ! k # drop (Suc k) artifacts"
    using assms(8) by (rule id_take_nth_drop)
  have whole: "Build ext tags artifacts w =
        (Return ([], Some (errors_Wrap err (''setting artifact '' @ ImageName artifact))), w5)"
    using build [of "drop (Suc k) artifacts"] split by simp
  obtain cs where cs: "calls w4 = calls w3 @ cs" "list_all is_UnmarshalStrict cs"
    using setArtifacts_callsD [OF assms(9)] by blast
  obtain plugin :: BuilderPlugin where w5: "w5 = log (Call_UnmarshalStrict (Contents plugin)) w4"
    using setArtifact_error [OF assms(10)] by blast
  have calls: "calls w5 = calls w @ [Call_CloneThroughJSON (Properties e), Call_CurrentContext,
          Call_NewBuilder (case l of None \<Rightarrow> LocalBuild_zero | Some l' \<Rightarrow> l') kubeContext
            (SkipTests options)] @ (cs @ [Call_UnmarshalStrict (Contents plugin)])"
    using cs(1) w5 assms(7) by (simp add: log_def)
  have all: "list_all is_UnmarshalStrict (cs @ [Call_UnmarshalStrict (Contents plugin)])"
    using cs(2) by simp
  have name: "sublist (ImageName artifact)
        (Error (errors_Wrap err (''setting artifact '' @ ImageName artifact)))"
    by (rule sublist_Error_Wrap)
  have hp: "heap w5 = heap w4" using w5 by (simp add: log_def)
  have rest: "\<forall>rest. Build ext tags (take k artifacts @ artifacts ! k # rest) w = Build ext tags artifacts w"
    using build whole by simp
  show ?thesis
    by (intro exI [of _ artifact] exI [of _ "cs @ [Call_UnmarshalStrict (Contents plugin)]"] conjI)
      (fact a whole name calls all hp rest)+
qed

text \<open>
  C2 at a batch of three artifacts whose second has an empty build target: the first
  is decoded, the second fails, the third is not decoded.
\<close>

theorem Build_all_or_nothing_witness:
  "fst (Build demo_ext [] [0, 1, 2] (demo_world [web, api_empty_target, app] env_local))
     = Return ([], Some (withMessage (fundamental ''api must have an associated build target'')
                 ''setting artifact api''))
   \<and> calls (snd (Build demo_ext [] [0, 1, 2] (demo_world [web, api_empty_target, app] env_local)))
     = [Call_CloneThroughJSON None, Call_CurrentContext, Call_NewBuilder LocalBuild_zero ''minikube'' False,
        Call_UnmarshalStrict payload_app, Call_UnmarshalStrict payload_empty_target]
   \<and> Build demo_ext [] [0, 1] (demo_world [web, api_empty_target, app] env_local)
     = Build demo_ext [] [0, 1, 2] (demo_world [web, api_empty_target, app] env_local)"
proof -
  let ?w = "demo_world [web, api_empty_target, app] env_local"
  let ?w3 = "log (Call_NewBuilder (case None of None \<Rightarrow> LocalBuild_zero | Some l' \<Rightarrow> l') ''minikube''
                 (SkipTests \<lparr>SkipTests = False\<rparr>))
               (log Call_CurrentContext (log (Call_CloneThroughJSON (Properties env_local)) ?w))"
  let ?w4 = "snd (setArtifacts demo_ext (take 1 [0, 1, 2]) ?w3)"
  let ?w5 = "snd (setArtifact demo_ext ([0, 1, 2] ! 1) ?w4)"
  let ?err = "fundamental ''api must have an associated build target''"
  have h1: "env (self ?w) = Some env_local" by (simp add: demo_defs api_empty_target_def web_def)
  have h2: "Name env_local = constants_Local" by (simp add: demo_defs api_empty_target_def web_def constants_Local_def)
  have h3: "util_CloneThroughJSON (Properties env_local) = (None, None)"
    by (simp add: demo_defs api_empty_target_def web_def util_CloneThroughJSON_def)
  have h4: "kubectx_CurrentContext demo_ext = (''minikube'', None)" by (simp add: demo_defs api_empty_target_def web_def)
  have h5: "opts (self ?w) = Some \<lparr>SkipTests = False\<rparr>" by (simp add: demo_defs api_empty_target_def web_def)
  have h6: "local_NewBuilder demo_ext (case None of None \<Rightarrow> LocalBuild_zero | Some l' \<Rightarrow> l') ''minikube''
      (SkipTests \<lparr>SkipTests = False\<rparr>) = ((), None)"
    by (simp add: demo_defs api_empty_target_def web_def)
  have h8: "1 < length [0::nat, 1, 2]" by simp
  have "fst (setArtifacts demo_ext (take 1 [0, 1, 2]) ?w3) = Return None"
    by (simp add: demo_defs api_empty_target_def web_def model_defs)
  then have h9: "setArtifacts demo_ext (take 1 [0, 1, 2]) ?w3 = (Return None, ?w4)"
    by (metis prod.collapse)
  have h4heap: "heap ?w4 1 = Some api_empty_target"
    by (simp add: demo_defs api_empty_target_def web_def model_defs)
  have "fst (setArtifact demo_ext ([0, 1, 2] ! 1) ?w4) = Return (Some ?err)"
    using h4heap by (simp add: demo_defs api_empty_target_def web_def model_defs)
  then have h10: "setArtifact demo_ext ([0, 1, 2] ! 1) ?w4 = (Return (Some ?err), ?w5)"
    by (metis prod.collapse)
  obtain artifact cs where
    a: "heap ?w5 ([0, 1, 2] ! 1) = Some artifact"
    and b: "Build demo_ext [] [0, 1, 2] ?w =
        (Return ([], Some (errors_Wrap ?err (''setting artifact '' @ ImageName artifact))), ?w5)"
    and r: "\<forall>rest. Build demo_ext [] (take 1 [0, 1, 2] @ [0, 1, 2] ! 1 # rest) ?w
        = Build demo_ext [] [0, 1, 2] ?w"
    using Build_all_or_nothing [OF h1 h2 h3 h4 h5 h6 refl h8 h9 h10, of "[]"] by blast
  have h5heap: "heap ?w5 1 = Some api_empty_target"
    using h4heap by (simp add: demo_defs api_empty_target_def web_def model_defs)
  then have "artifact = api_empty_target" using a by simp
  then have n: "ImageName artifact = ''api''" by (simp add: demo_defs api_empty_target_def web_def)
  have c1: "fst (Build demo_ext [] [0, 1, 2] ?w)
     = Return ([], Some (withMessage ?err ''setting artifact api''))"
    using b n by (simp add: errors_Wrap_def)
  have c2: "calls (snd (Build demo_ext [] [0, 1, 2] ?w))
     = [Call_CloneThroughJSON None, Call_CurrentContext, Call_NewBuilder LocalBuild_zero ''minikube'' False,
        Call_UnmarshalStrict payload_app, Call_UnmarshalStrict payload_empty_target]"
    unfolding b snd_conv using h4heap by (simp add: demo_defs api_empty_target_def web_def model_defs)
  have c3: "Build demo_ext [] [0, 1] ?w = Build demo_ext [] [0, 1, 2] ?w"
    using r [rule_format, of "[]"] by simp
  show ?thesis using c1 c2 c3 by blast
qed

text \<open>
  Claim C9 (absent properties give the default configuration). In \<open>local\<close>, when
  the properties of the environment are nil or empty, the conversion returns no error
  and the configuration that is used is the zero value: \<open>local\<close> goes on to ask for
  the cluster context, and when that succeeds and the options are set, the local
  builder is made with the zero configuration. The conversion fails only for a bag
  that is not empty, and then \<open>local\<close> returns that error wrapped with
  \<open>converting execution env to localBuild struct\<close> after the one call. Whenever the
  conversion succeeds, \<open>local\<close> goes on. The receiver, and with it the environment, is
  the same after \<open>local\<close> as before.
\<close>

theorem local_adapts_absent_properties:
  assumes "env (self w) = Some e"
  shows "(Properties e = None \<or> Properties e = Some [] \<longrightarrow>
        (\<exists>l. util_CloneThroughJSON (Properties e) = (l, None)
           \<and> (case l of None \<Rightarrow> LocalBuild_zero | Some l' \<Rightarrow> l') = LocalBuild_zero)
      \<and> (\<exists>rest. calls (snd (local ext tags artifacts w))
            = calls w @ Call_CloneThroughJSON (Properties e) # Call_CurrentContext # rest
          \<and> (\<forall>kubeContext options.
               kubectx_CurrentContext ext = (kubeContext, None) \<and> opts (self w) = Some options \<longrightarrow>
               (\<exists>rest'. rest = Call_NewBuilder LocalBuild_zero kubeContext (SkipTests options) # rest'))))
    \<and> (\<forall>l er. util_CloneThroughJSON (Properties e) = (l, Some er) \<longrightarrow>
          (\<exists>kvs. Properties e = Some kvs \<and> kvs \<noteq> [])
        \<and> local ext tags artifacts w =
            (Return ([], Some (errors_Wrap er ''converting execution env to localBuild struct'')),
             log (Call_CloneThroughJSON (Properties e)) w))
    \<and> (\<forall>l. util_CloneThroughJSON (Properties e) = (l, None) \<longrightarrow>
          (\<exists>rest. calls (snd (local ext tags artifacts w))
            = calls w @ Call_CloneThroughJSON (Properties e) # Call_CurrentContext # rest))
    \<and> self (snd (local ext tags artifacts w)) = self w"
proof (intro conjI impI allI)
  assume p: "Properties e = None \<or> Properties e = Some []"
  then obtain l where l: "util_CloneThroughJSON (Properties e) = (l, None)"
      "(case l of None \<Rightarrow> LocalBuild_zero | Some l' \<Rightarrow> l') = LocalBuild_zero"
    using util_CloneThroughJSON_absent by blast
  then show "\<exists>l. util_CloneThroughJSON (Properties e) = (l, None)
           \<and> (case l of None \<Rightarrow> LocalBuild_zero | Some l' \<Rightarrow> l') = LocalBuild_zero"
    by blast
  show "\<exists>rest. calls (snd (local ext tags artifacts w))
            = calls w @ Call_CloneThroughJSON (Properties e) # Call_CurrentContext # rest
          \<and> (\<forall>kubeContext options.
               kubectx_CurrentContext ext = (kubeContext, None) \<and> opts (self w) = Some options \<longrightarrow>
               (\<exists>rest'. rest = Call_NewBuilder LocalBuild_zero kubeContext (SkipTests options) # rest'))"
    using local_calls [OF assms l(1), of ext tags artifacts] l(2) by simp
next
  fix l er
  assume f: "util_CloneThroughJSON (Properties e) = (l, Some er)"
  then show "\<exists>kvs. Properties e = Some kvs \<and> kvs \<noteq> []"
    by (rule util_CloneThroughJSON_fails)
  show "local ext tags artifacts w =
            (Return ([], Some (errors_Wrap er ''converting execution env to localBuild struct'')),
             log (Call_CloneThroughJSON (Properties e)) w)"
    using assms f by (simp add: local_def Let_def)
next
  fix l
  assume "util_CloneThroughJSON (Properties e) = (l, None)"
  then show "\<exists>rest. calls (snd (local ext tags artifacts w))
            = calls w @ Call_CloneThroughJSON (Properties e) # Call_CurrentContext # rest"
    using local_calls [OF assms, of l ext tags artifacts] by blast
next
  show "self (snd (local ext tags artifacts w)) = self w" by (rule local_self)
qed

text \<open>
  C9 at the local environment with nil properties, and at an environment whose
  \<open>push\<close> property is a string.
\<close>

theorem local_adapts_absent_properties_witness:
  "Properties env_local = None
   \<and> util_CloneThroughJSON (Properties env_local) = (None, None)
   \<and> (\<exists>rest. calls (snd (local demo_ext [] [0] (demo_world [app] env_local)))
        = Call_CloneThroughJSON None # Call_CurrentContext
            # Call_NewBuilder LocalBuild_zero ''minikube'' False # rest)
   \<and> local demo_ext [] [0] (demo_world [app] env_bad_push)
       = (Return ([], Some (errors_Wrap
            (errors_Wrap
               (fundamental ''json: cannot unmarshal into Go struct field LocalBuild.push of type bool'')
               ''unmarshalling new'')
            ''converting execution env to localBuild struct'')),
          log (Call_CloneThroughJSON (Properties env_bad_push)) (demo_world [app] env_bad_push))
   \<and> self (snd (local demo_ext [] [0] (demo_world [app] env_local)))
       = self (demo_world [app] env_local)"
proof -
  let ?w = "demo_world [app] env_local"
  let ?v = "demo_world [app] env_bad_push"
  have h: "env (self ?w) = Some env_local" by (simp add: demo_defs env_bad_push_def)
  have g: "env (self ?v) = Some env_bad_push" by (simp add: demo_defs env_bad_push_def)
  have p: "Properties env_local = None" by (simp add: demo_defs env_bad_push_def)
  have u: "util_CloneThroughJSON (Properties env_local) = (None, None)"
    by (simp add: demo_defs env_bad_push_def util_CloneThroughJSON_def)
  have k: "kubectx_CurrentContext demo_ext = (''minikube'', None)" by (simp add: demo_defs env_bad_push_def)
  have o: "opts (self ?w) = Some \<lparr>SkipTests = False\<rparr>" by (simp add: demo_defs env_bad_push_def)
  have f: "util_CloneThroughJSON (Properties env_bad_push)
      = (Some LocalBuild_zero, Some (errors_Wrap
            (fundamental ''json: cannot unmarshal into Go struct field LocalBuild.push of type bool'')
            ''unmarshalling new''))"
    by (simp add: demo_defs env_bad_push_def util_CloneThroughJSON_def)
  have c0: "calls ?w = []" by (simp add: demo_defs env_bad_push_def)
  have c1: "\<exists>rest. calls (snd (local demo_ext [] [0] ?w))
        = Call_CloneThroughJSON None # Call_CurrentContext
            # Call_NewBuilder LocalBuild_zero ''minikube'' False # rest"
    using local_adapts_absent_properties [OF h, of demo_ext "[]" "[0]"] p k o c0
    by fastforce
  have c2: "local demo_ext [] [0] ?v
       = (Return ([], Some (errors_Wrap
            (errors_Wrap
               (fundamental ''json: cannot unmarshal into Go struct field LocalBuild.push of type bool'')
               ''unmarshalling new'')
            ''converting execution env to localBuild struct'')),
          log (Call_CloneThroughJSON (Properties env_bad_push)) ?v)"
    using local_adapts_absent_properties [OF g, of demo_ext "[]" "[0]"] f by blast
  have c3: "self (snd (local demo_ext [] [0] ?w)) = self ?w"
    using local_adapts_absent_properties [OF h, of demo_ext "[]" "[0]"] by blast
  show ?thesis using p u c1 c2 c3 by blast
qed

section \<open>Dependencies\<close>

text \<open>
  Claim C6 (path normalization). Let the normalizer \<open>util.AbsolutePaths\<close> do what the
  spec says of it. When \<open>DependenciesForArtifact\<close> of the Bazel builder returns paths
  and no error, the enumerator was called once, with the workspace of the artifact and
  with the configuration that the artifact holds after the call (the one it held
  before, or else the one decoded from its payload), and it returned no error; the
  paths are the normalizer's answer for that workspace and the enumerator's paths: one
  for each, in order, each absolute, equal to the enumerator's path where that is
  absolute and under the workspace where it is relative. The same holds for the Google
  Cloud Build builder, whose enumerator is called with the Docker configuration of the
  artifact. In both, every returned path is absolute.
\<close>

theorem DependenciesForArtifact_paths_normalized:
  assumes "normalizes wd (util_AbsolutePaths ext)" and "heap w r = Some artifact"
  shows "(DependenciesForArtifact ext r w = (Return (paths, None), w') \<longrightarrow>
       (\<exists>artifact' cfg enumerated.
          heap w' r = Some artifact' \<and> BazelArtifact (ArtifactType artifact') = Some cfg
        \<and> (BazelArtifact (ArtifactType artifact) \<noteq> None \<longrightarrow>
              BazelArtifact (ArtifactType artifact) = Some cfg)
        \<and> (BazelArtifact (ArtifactType artifact) = None \<longrightarrow>
              (\<exists>plugin. BuilderPlugin artifact = Some plugin
                 \<and> yaml_UnmarshalStrict ext (Contents plugin) = (Some cfg, None)))
        \<and> calls w' = calls (snd (setArtifact ext r w))
              @ [Call_bazel_GetDependencies (Workspace artifact) cfg]
        \<and> bazel_GetDependencies ext (Workspace artifact) cfg = (enumerated, None)
        \<and> paths = util_AbsolutePaths ext (Workspace artifact) enumerated
        \<and> length paths = length enumerated
        \<and> (\<forall>i < length enumerated.
              IsAbs (paths ! i)
            \<and> (IsAbs (enumerated ! i) \<longrightarrow> paths ! i = enumerated ! i)
            \<and> (\<not> IsAbs (enumerated ! i) \<longrightarrow> is_under (Abs wd (Workspace artifact)) (paths ! i)))))
    \<and> (gcb_DependenciesForArtifact ext r w = (Return (paths, None), w') \<longrightarrow>
       (\<exists>enumerated.
          docker_GetDependencies ext (Workspace artifact) (DockerArtifact (ArtifactType artifact))
            = (enumerated, None)
        \<and> calls w' = calls w @ [Call_docker_GetDependencies (Workspace artifact)
              (DockerArtifact (ArtifactType artifact))]
        \<and> paths = util_AbsolutePaths ext (Workspace artifact) enumerated
        \<and> length paths = length enumerated
        \<and> (\<forall>i < length enumerated.
              IsAbs (paths ! i)
            \<and> (IsAbs (enumerated ! i) \<longrightarrow> paths ! i = enumerated ! i)
            \<and> (\<not> IsAbs (enumerated ! i) \<longrightarrow> is_under (Abs wd (Workspace artifact)) (paths ! i)))))
    \<and> (DependenciesForArtifact ext r w = (Return (paths, None), w')
          \<or> gcb_DependenciesForArtifact ext r w = (Return (paths, None), w')
        \<longrightarrow> (\<forall>path \<in> set paths. IsAbs path))"
proof (intro conjI impI)
  assume d: "DependenciesForArtifact ext r w = (Return (paths, None), w')"
  obtain artifact' cfg enumerated where
    f: "heap w' r = Some artifact' \<and> BazelArtifact (ArtifactType artifact') = Some cfg
      \<and> (BazelArtifact (ArtifactType artifact) \<noteq> None \<longrightarrow>
          BazelArtifact (ArtifactType artifact) = Some cfg)
      \<and> (BazelArtifact (ArtifactType artifact) = None \<longrightarrow>
          (\<exists>plugin. BuilderPlugin artifact = Some plugin
             \<and> yaml_UnmarshalStrict ext (Contents plugin) = (Some cfg, None)))
      \<and> calls w' = calls (snd (setArtifact ext r w))
          @ [Call_bazel_GetDependencies (Workspace artifact) cfg]
      \<and> bazel_GetDependencies ext (Workspace artifact) cfg = (enumerated, None)
      \<and> paths = util_AbsolutePaths ext (Workspace artifact) enumerated"
    using DependenciesForArtifact_success [OF d assms(2)] by (elim exE) (rule that)
  have p: "paths = util_AbsolutePaths ext (Workspace artifact) enumerated"
    using f by simp
  have f1: "heap w' r = Some artifact'" using f by simp
  have f2: "BazelArtifact (ArtifactType artifact') = Some cfg" using f by simp
  have f3: "BazelArtifact (ArtifactType artifact) \<noteq> None \<longrightarrow>
      BazelArtifact (ArtifactType artifact) = Some cfg"
    using f by simp
  have f4: "BazelArtifact (ArtifactType artifact) = None \<longrightarrow>
      (\<exists>plugin. BuilderPlugin artifact = Some plugin
         \<and> yaml_UnmarshalStrict ext (Contents plugin) = (Some cfg, None))"
    using f by simp
  have f5: "calls w' = calls (snd (setArtifact ext r w))
      @ [Call_bazel_GetDependencies (Workspace artifact) cfg]"
    using f by simp
  have f6: "bazel_GetDependencies ext (Workspace artifact) cfg = (enumerated, None)"
    using f by simp
  have n: "length paths = length enumerated
    \<and> (\<forall>i < length enumerated.
          IsAbs (paths ! i)
        \<and> (IsAbs (enumerated ! i) \<longrightarrow> paths ! i = enumerated ! i)
        \<and> (\<not> IsAbs (enumerated ! i) \<longrightarrow> is_under (Abs wd (Workspace artifact)) (paths ! i)))"
    unfolding p by (rule normalizes_nth [OF assms(1)])
  show "\<exists>artifact' cfg enumerated.
          heap w' r = Some artifact' \<and> BazelArtifact (ArtifactType artifact') = Some cfg
        \<and> (BazelArtifact (ArtifactType artifact) \<noteq> None \<longrightarrow>
              BazelArtifact (ArtifactType artifact) = Some cfg)
        \<and> (BazelArtifact (ArtifactType artifact) = None \<longrightarrow>
              (\<exists>plugin. BuilderPlugin artifact = Some plugin
                 \<and> yaml_UnmarshalStrict ext (Contents plugin) = (Some cfg, None)))
        \<and> calls w' = calls (snd (setArtifact ext r w))
              @ [Call_bazel_GetDependencies (Workspace artifact) cfg]
        \<and> bazel_GetDependencies ext (Workspace artifact) cfg = (enumerated, None)
        \<and> paths = util_AbsolutePaths ext (Workspace artifact) enumerated
        \<and> length paths = length enumerated
        \<and> (\<forall>i < length enumerated.
              IsAbs (paths ! i)
            \<and> (IsAbs (enumerated ! i) \<longrightarrow> paths ! i = enumerated ! i)
            \<and> (\<not> IsAbs (enumerated ! i) \<longrightarrow> is_under (Abs wd (Workspace artifact)) (paths ! i)))"
    by (intro exI [of _ artifact'] exI [of _ cfg] exI [of _ enumerated] conjI)
      (fact f1 f2 f3 f4 f5 f6 p n [THEN conjunct1] n [THEN conjunct2])+
next
  assume d: "gcb_DependenciesForArtifact ext r w = (Return (paths, None), w')"
  obtain enumerated where
    f: "docker_GetDependencies ext (Workspace artifact) (DockerArtifact (ArtifactType artifact))
          = (enumerated, None)"
      "w' = log (Call_docker_GetDependencies (Workspace artifact)
               (DockerArtifact (ArtifactType artifact))) w"
    and p: "paths = util_AbsolutePaths ext (Workspace artifact) enumerated"
    using gcb_DependenciesForArtifact_success [OF d assms(2)] by blast
  have c: "calls w' = calls w @ [Call_docker_GetDependencies (Workspace artifact)
              (DockerArtifact (ArtifactType artifact))]"
    using f(2) by (simp add: log_def)
  have n: "length paths = length enumerated
    \<and> (\<forall>i < length enumerated.
          IsAbs (paths ! i)
        \<and> (IsAbs (enumerated ! i) \<longrightarrow> paths ! i = enumerated ! i)
        \<and> (\<not> IsAbs (enumerated ! i) \<longrightarrow> is_under (Abs wd (Workspace artifact)) (paths ! i)))"
    unfolding p by (rule normalizes_nth [OF assms(1)])
  show "\<exists>enumerated.
          docker_GetDependencies ext (Workspace artifact) (DockerArtifact (ArtifactType artifact))
            = (enumerated, None)
        \<and> calls w' = calls w @ [Call_docker_GetDependencies (Workspace artifact)
              (DockerArtifact (ArtifactType artifact))]
        \<and> paths = util_AbsolutePaths ext (Workspace artifact) enumerated
        \<and> length paths = length enumerated
        \<and> (\<forall>i < length enumerated.
              IsAbs (paths ! i)
            \<and> (IsAbs (enumerated ! i) \<longrightarrow> paths ! i = enumerated ! i)
            \<and> (\<not> IsAbs (enumerated ! i) \<longrightarrow> is_under (Abs wd (Workspace artifact)) (paths ! i)))"
    using f(1) c p n by blast
next
  assume "DependenciesForArtifact ext r w = (Return (paths, None), w')
          \<or> gcb_DependenciesForArtifact ext r w = (Return (paths, None), w')"
  then have "\<exists>enumerated. paths = util_AbsolutePaths ext (Workspace artifact) enumerated"
    using DependenciesForArtifact_success [OF _ assms(2)]
      gcb_DependenciesForArtifact_success [OF _ assms(2)]
    by blast
  then show "\<forall>path \<in> set paths. IsAbs path"
    using normalizes_absolute [OF assms(1)] by blast
qed

text \<open>
  C6 at the scenario's artifact, whose workspace is \<open>/src\<close>, and at the same artifact
  with the workspace \<open>.\<close>, with a normalizer that does what the spec says for the
  working directory \<open>/home/dev\<close>.
\<close>

theorem DependenciesForArtifact_paths_normalized_witness:
  "normalizes demo_wd (util_AbsolutePaths demo_ext)
   \<and> fst (DependenciesForArtifact demo_ext 0 (demo_world [app] env_local))
       = Return ([''/src/main.go'', ''/src/BUILD'', ''/etc/ca.pem''], None)
   \<and> IsAbs ''/src/main.go'' \<and> IsAbs ''/src/BUILD'' \<and> IsAbs ''/etc/ca.pem''
   \<and> is_under ''/src'' ''/src/main.go'' \<and> is_under ''/src'' ''/src/BUILD''
   \<and> fst (gcb_DependenciesForArtifact demo_ext 0 (demo_world [app] env_local))
       = Return ([''/src/Dockerfile'', ''/etc/ca.pem''], None)
   \<and> IsAbs ''/src/Dockerfile''
   \<and> fst (DependenciesForArtifact demo_ext 0 (demo_world [app_relative] env_local))
       = Return ([''/home/dev/main.go'', ''/home/dev/BUILD'', ''/etc/ca.pem''], None)
   \<and> IsAbs ''/home/dev/main.go'' \<and> IsAbs ''/home/dev/BUILD''"
proof -
  let ?w = "demo_world [app] env_local"
  let ?v = "demo_world [app_relative] env_local"
  have c: "normalizes demo_wd (util_AbsolutePaths demo_ext)"
    using demo_AbsolutePaths_normalizes by (simp add: demo_ext_def)
  have h: "heap ?w 0 = Some app" by (simp add: demo_defs)
  have k: "heap ?v 0 = Some app_relative" by (simp add: demo_defs app_relative_def)
  have b: "fst (DependenciesForArtifact demo_ext 0 ?w)
       = Return ([''/src/main.go'', ''/src/BUILD'', ''/etc/ca.pem''], None)"
    by (simp add: demo_defs model_defs)
  then have b': "DependenciesForArtifact demo_ext 0 ?w
       = (Return ([''/src/main.go'', ''/src/BUILD'', ''/etc/ca.pem''], None),
          snd (DependenciesForArtifact demo_ext 0 ?w))"
    by (metis prod.collapse)
  have g: "fst (gcb_DependenciesForArtifact demo_ext 0 ?w)
       = Return ([''/src/Dockerfile'', ''/etc/ca.pem''], None)"
    by (simp add: demo_defs model_defs)
  then have g': "gcb_DependenciesForArtifact demo_ext 0 ?w
       = (Return ([''/src/Dockerfile'', ''/etc/ca.pem''], None),
          snd (gcb_DependenciesForArtifact demo_ext 0 ?w))"
    by (metis prod.collapse)
  have e: "fst (DependenciesForArtifact demo_ext 0 ?v)
       = Return ([''/home/dev/main.go'', ''/home/dev/BUILD'', ''/etc/ca.pem''], None)"
    by (simp add: demo_defs app_relative_def model_defs)
  then have e': "DependenciesForArtifact demo_ext 0 ?v
       = (Return ([''/home/dev/main.go'', ''/home/dev/BUILD'', ''/etc/ca.pem''], None),
          snd (DependenciesForArtifact demo_ext 0 ?v))"
    by (metis prod.collapse)
  have p1: "\<forall>path \<in> set [''/src/main.go'', ''/src/BUILD'', ''/etc/ca.pem'']. IsAbs path"
    using DependenciesForArtifact_paths_normalized [OF c h, of
        "[''/src/main.go'', ''/src/BUILD'', ''/etc/ca.pem'']"
        "snd (DependenciesForArtifact demo_ext 0 ?w)"] b'
    by blast
  have p2: "\<forall>path \<in> set [''/src/Dockerfile'', ''/etc/ca.pem'']. IsAbs path"
    using DependenciesForArtifact_paths_normalized [OF c h, of
        "[''/src/Dockerfile'', ''/etc/ca.pem'']"
        "snd (gcb_DependenciesForArtifact demo_ext 0 ?w)"] g'
    by blast
  have p3: "\<forall>path \<in> set [''/home/dev/main.go'', ''/home/dev/BUILD'', ''/etc/ca.pem'']. IsAbs path"
    using DependenciesForArtifact_paths_normalized [OF c k, of
        "[''/home/dev/main.go'', ''/home/dev/BUILD'', ''/etc/ca.pem'']"
        "snd (DependenciesForArtifact demo_ext 0 ?v)"] e'
    by blast
  have u: "is_under ''/src'' ''/src/main.go'' \<and> is_under ''/src'' ''/src/BUILD''"
    by (simp add: is_under_def names_def IsAbs_def)
  show ?thesis using c b g e p1 p2 p3 u by simp
qed

text \<open>
  Claim C7 (what \<open>DependenciesForArtifact\<close> needs), as amended. For an artifact that
  holds no Bazel configuration, \<open>DependenciesForArtifact\<close> of the Bazel builder
  materializes it first. If \<open>setArtifact\<close> returns an error, that error is returned
  as it is, with no paths, the store is unchanged and the only outside call is the
  decoder's: the enumerator is not called. If \<open>setArtifact\<close> succeeds, the artifact
  now holds a configuration with a build target that is not empty, and the enumerator
  is called with it. The error \<open>bazel artifact is nil\<close> is never returned. The
  Google Cloud Build builder checks nothing: it calls its enumerator with the Docker
  configuration of the artifact, nil or not.
\<close>

theorem DependenciesForArtifact_materializes_first:
  assumes "heap w r = Some artifact" and "BazelArtifact (ArtifactType artifact) = None"
  shows "(setArtifact ext r w = (Return (Some err), w1) \<longrightarrow>
        DependenciesForArtifact ext r w = (Return ([], Some err), w1)
      \<and> heap w1 = heap w
      \<and> (\<exists>contents. calls w1 = calls w @ [Call_UnmarshalStrict contents]))
    \<and> (setArtifact ext r w = (Return None, w1) \<longrightarrow>
        (\<exists>cfg. heap w1 r = Some (artifact\<lparr>ArtifactType :=
                  (ArtifactType artifact)\<lparr>BazelArtifact := Some cfg\<rparr>\<rparr>)
           \<and> BuildTarget cfg \<noteq> []
           \<and> calls (snd (DependenciesForArtifact ext r w))
               = calls w1 @ [Call_bazel_GetDependencies (Workspace artifact) cfg]))
    \<and> fst (DependenciesForArtifact ext r w) \<noteq> Return ([], Some (errors_New ''bazel artifact is nil''))
    \<and> calls (snd (gcb_DependenciesForArtifact ext r w))
        = calls w @ [Call_docker_GetDependencies (Workspace artifact) (DockerArtifact (ArtifactType artifact))]"
proof (intro conjI impI)
  assume s: "setArtifact ext r w = (Return (Some err), w1)"
  then obtain plugin :: BuilderPlugin where w1: "w1 = log (Call_UnmarshalStrict (Contents plugin)) w"
    using setArtifact_error by blast
  show "DependenciesForArtifact ext r w = (Return ([], Some err), w1)"
    using s by (simp add: DependenciesForArtifact_def)
  show "heap w1 = heap w" using w1 by (simp add: log_def)
  show "\<exists>contents. calls w1 = calls w @ [Call_UnmarshalStrict contents]"
    using w1 by (simp add: log_def)
next
  assume s: "setArtifact ext r w = (Return None, w1)"
  then show "\<exists>cfg. heap w1 r = Some (artifact\<lparr>ArtifactType :=
                  (ArtifactType artifact)\<lparr>BazelArtifact := Some cfg\<rparr>\<rparr>)
           \<and> BuildTarget cfg \<noteq> []
           \<and> calls (snd (DependenciesForArtifact ext r w))
               = calls w1 @ [Call_bazel_GetDependencies (Workspace artifact) cfg]"
    using assms
    by (auto simp: DependenciesForArtifact_def setArtifact_def log_def Let_def
        split: option.splits prod.splits if_splits)
next
  show "fst (DependenciesForArtifact ext r w) \<noteq> Return ([], Some (errors_New ''bazel artifact is nil''))"
    using assms not_nil_message [of "ImageName artifact"]
    by (auto simp: DependenciesForArtifact_def setArtifact_def log_def Let_def errors_New_def
        errors_Wrap_def split: option.splits prod.splits if_splits)
next
  show "calls (snd (gcb_DependenciesForArtifact ext r w))
        = calls w @ [Call_docker_GetDependencies (Workspace artifact) (DockerArtifact (ArtifactType artifact))]"
    using assms(1)
    by (simp add: gcb_DependenciesForArtifact_def Let_def log_def split: prod.splits option.splits)
qed

text \<open>
  C7 as amended, at the artifact with an empty build target and at the scenario's
  artifact.
\<close>

theorem DependenciesForArtifact_materializes_first_witness:
  "BazelArtifact (ArtifactType app_empty_target) = None
   \<and> DependenciesForArtifact demo_ext 0 (demo_world [app_empty_target] env_local)
       = (Return ([], Some (fundamental ''app must have an associated build target'')),
          snd (setArtifact demo_ext 0 (demo_world [app_empty_target] env_local)))
   \<and> BazelArtifact (ArtifactType app) = None
   \<and> (\<exists>cfg. calls (snd (DependenciesForArtifact demo_ext 0 (demo_world [app] env_local)))
         = calls (snd (setArtifact demo_ext 0 (demo_world [app] env_local)))
             @ [Call_bazel_GetDependencies (Workspace app) cfg])
   \<and> fst (DependenciesForArtifact demo_ext 0 (demo_world [app] env_local))
       \<noteq> Return ([], Some (errors_New ''bazel artifact is nil''))
   \<and> calls (snd (gcb_DependenciesForArtifact demo_ext 0 (demo_world [app] env_local)))
       = [Call_docker_GetDependencies ''/src'' None]"
proof -
  let ?v = "demo_world [app_empty_target] env_local"
  let ?w = "demo_world [app] env_local"
  have v1: "heap ?v 0 = Some app_empty_target" by (simp add: demo_defs app_empty_target_def)
  have v2: "BazelArtifact (ArtifactType app_empty_target) = None" by (simp add: demo_defs app_empty_target_def)
  have "fst (setArtifact demo_ext 0 ?v)
      = Return (Some (fundamental ''app must have an associated build target''))"
    by (simp add: demo_defs app_empty_target_def model_defs)
  then have v3: "setArtifact demo_ext 0 ?v
      = (Return (Some (fundamental ''app must have an associated build target'')),
         snd (setArtifact demo_ext 0 ?v))"
    by (metis prod.collapse)
  have w1: "heap ?w 0 = Some app" by (simp add: demo_defs app_empty_target_def)
  have w2: "BazelArtifact (ArtifactType app) = None" by (simp add: demo_defs app_empty_target_def)
  have "fst (setArtifact demo_ext 0 ?w) = Return None"
    by (simp add: demo_defs app_empty_target_def model_defs)
  then have w3: "setArtifact demo_ext 0 ?w = (Return None, snd (setArtifact demo_ext 0 ?w))"
    by (metis prod.collapse)
  have c1: "DependenciesForArtifact demo_ext 0 ?v
       = (Return ([], Some (fundamental ''app must have an associated build target'')),
          snd (setArtifact demo_ext 0 ?v))"
    using DependenciesForArtifact_materializes_first [OF v1 v2, of demo_ext
        "fundamental ''app must have an associated build target''" "snd (setArtifact demo_ext 0 ?v)"] v3
    by blast
  have c2: "\<exists>cfg. calls (snd (DependenciesForArtifact demo_ext 0 ?w))
         = calls (snd (setArtifact demo_ext 0 ?w)) @ [Call_bazel_GetDependencies (Workspace app) cfg]"
    using DependenciesForArtifact_materializes_first [OF w1 w2, of demo_ext _
        "snd (setArtifact demo_ext 0 ?w)"] w3
    by blast
  have c3: "fst (DependenciesForArtifact demo_ext 0 ?w)
       \<noteq> Return ([], Some (errors_New ''bazel artifact is nil''))"
    using DependenciesForArtifact_materializes_first [OF w1 w2, of demo_ext] by blast
  have c4: "calls (snd (gcb_DependenciesForArtifact demo_ext 0 ?w))
       = [Call_docker_GetDependencies ''/src'' None]"
    using DependenciesForArtifact_materializes_first [OF w1 w2, of demo_ext]
    by (simp add: demo_defs app_empty_target_def)
  show ?thesis using v2 w2 c1 c2 c3 c4 by blast
qed

text \<open>
  C7 as the claim states it, an error for every artifact that is not yet
  materialized, fails at the scenario's artifact: it holds no configuration, and the
  call decodes its payload, calls the enumerator and returns the paths.
\<close>

theorem DependenciesForArtifact_unmaterialized_counterexample:
  "heap (demo_world [app] env_local) 0 = Some app
   \<and> BazelArtifact (ArtifactType app) = None
   \<and> fst (DependenciesForArtifact demo_ext 0 (demo_world [app] env_local))
      = Return ([''/src/main.go'', ''/src/BUILD'', ''/etc/ca.pem''], None)
   \<and> calls (snd (DependenciesForArtifact demo_ext 0 (demo_world [app] env_local)))
      = [Call_UnmarshalStrict ''buildTarget: //:app'',
         Call_bazel_GetDependencies ''/src'' \<lparr>BuildTarget = ''//:app''\<rparr>]"
  by (simp add: demo_defs model_defs)

text \<open>
  Claim C8 (a failed enumeration is annotated with the image name). At the
  materialized artifact \<open>app\<close> with an enumerator that returns a path and the error
  \<open>query failed\<close>, \<open>DependenciesForArtifact\<close> of the Bazel builder returns no paths
  and the message \<open>getting bazel dependencies: query failed\<close>, in which the image
  name does not occur. The Google Cloud Build builder, at the same artifact, returns
  the message of its enumerator after \<open>getting dependencies for app\<close>.
\<close>

theorem DependenciesForArtifact_enumerator_error_not_annotated:
  "fst (DependenciesForArtifact failing_ext 0 (demo_world [app_materialized] env_local))
      = Return ([], Some (withMessage (fundamental ''query failed'') ''getting bazel dependencies''))
   \<and> Error (withMessage (fundamental ''query failed'') ''getting bazel dependencies'')
      = ''getting bazel dependencies: query failed''
   \<and> \<not> sublist (ImageName app_materialized) ''getting bazel dependencies: query failed''
   \<and> fst (gcb_DependenciesForArtifact failing_ext 0 (demo_world [app_materialized] env_local))
      = Return ([], Some (withMessage (fundamental ''no such file'') ''getting dependencies for app''))"
proof (intro conjI)
  show "fst (DependenciesForArtifact failing_ext 0 (demo_world [app_materialized] env_local))
      = Return ([], Some (withMessage (fundamental ''query failed'') ''getting bazel dependencies''))"
    by (simp add: demo_defs app_materialized_def failing_ext_def model_defs)
  show "Error (withMessage (fundamental ''query failed'') ''getting bazel dependencies'')
      = ''getting bazel dependencies: query failed''"
    by simp
  show "\<not> sublist (ImageName app_materialized) ''getting bazel dependencies: query failed''"
    by (simp add: demo_defs app_materialized_def failing_ext_def) code_simp
  show "fst (gcb_DependenciesForArtifact failing_ext 0 (demo_world [app_materialized] env_local))
      = Return ([], Some (withMessage (fundamental ''no such file'') ''getting dependencies for app''))"
    by (simp add: demo_defs app_materialized_def failing_ext_def model_defs)
qed

end
